theory Spec2Isabelle
  imports Main
begin

section \<open>JavaScript values\<close>

text \<open>
  The arguments of the manager's methods come from a parsed JSON body, so any field may be
  missing or of any JSON kind. A number is modelled by its integer value, with \<open>NaN\<close>
  apart; an object or array is opaque. The program's numbers are IEEE doubles: the model
  computes as the program does on whole numbers up to \<open>Number.MAX_SAFE_INTEGER\<close> in
  absolute value whose sums, differences and products stay within that bound. Beyond it
  JavaScript rounds (\<open>1 + 2^53\<close> is \<open>2^53\<close>), which the model does not; fractional
  and infinite numbers, which \<open>validateInput\<close> lets pass as quantities, are not
  represented.
\<close>

datatype jsval = JUndefined | JNull | JBool bool | JNum int | JNaN | JStr string | JObj

text \<open>The truthiness used by \<open>!x\<close>, \<open>x && y\<close> and \<open>x || y\<close>.\<close>

fun truthy :: "jsval \<Rightarrow> bool" where
  "truthy JUndefined = False"
| "truthy JNull = False"
| "truthy (JBool b) = b"
| "truthy (JNum n) = (n \<noteq> 0)"
| "truthy JNaN = False"
| "truthy (JStr s) = (s \<noteq> [])"
| "truthy JObj = True"

fun typeof :: "jsval \<Rightarrow> string" where
  "typeof JUndefined = ''undefined''"
| "typeof JNull = ''object''"
| "typeof (JBool b) = ''boolean''"
| "typeof (JNum n) = ''number''"
| "typeof JNaN = ''number''"
| "typeof (JStr s) = ''string''"
| "typeof JObj = ''object''"

text \<open>
  \<open>v < m\<close> for a number \<open>m\<close>: the left operand is converted with ToNumber, and a
  comparison with \<open>NaN\<close> is false. In \<open>validateInput\<close> this is reached only after the
  \<open>typeof\<close> test, and every rule of this program that has a \<open>min\<close> has type
  \<open>number\<close>, so the operand is a number there; the text-parsing conversions of strings and
  objects are not written out and those operands are taken as \<open>NaN\<close>.
\<close>

fun js_lt :: "jsval \<Rightarrow> int \<Rightarrow> bool" where
  "js_lt (JNum n) m = (n < m)"
| "js_lt JNaN m = False"
| "js_lt JUndefined m = False"
| "js_lt JNull m = (0 < m)"
| "js_lt (JBool b) m = ((if b then 1 else 0) < m)"
| "js_lt (JStr s) m = False"
| "js_lt JObj m = False"

section \<open>Errors\<close>

text \<open>
  \<open>InventoryNotificationError(message, type)\<close>: one constructor per \<open>type\<close> string of
  InventoryManager.js, carrying the values interpolated into the message. An error of the
  storage driver (\<open>connection.execute\<close> rejecting) and an exception thrown by an event
  listener are not instances of that class.
\<close>

datatype violation = IsRequired | MustBeOfType string | MustBeAtLeast int

datatype db_error =
    ER_DUP_ENTRY
  | ER_NO_REFERENCED_ROW_2
  | WARN_DATA_TRUNCATED
  | ER_CHECK_CONSTRAINT_VIOLATED

datatype error =
    VALIDATION_ERROR string violation
  | PRODUCT_NOT_FOUND string
  | INSUFFICIENT_STOCK int int
  | INVALID_TRANSACTION_TYPE string
  | DUPLICATE_PRODUCT string
  | DbError db_error
  | ListenerError string

text \<open>\<open>error instanceof InventoryNotificationError\<close>, as server.js tests it.\<close>

fun isInventoryNotificationError :: "error \<Rightarrow> bool" where
  "isInventoryNotificationError (DbError e) = False"
| "isInventoryNotificationError (ListenerError x) = False"
| "isInventoryNotificationError e = True"

text \<open>The status that \<open>handleRequest\<close> of server.js answers for a thrown error.\<close>

definition statusCode :: "error \<Rightarrow> nat" where
  "statusCode e = (if isInventoryNotificationError e then 400 else 500)"

section \<open>Validation\<close>

text \<open>
  A rule \<open>{ required, type, min }\<close>. A missing \<open>type\<close> is the empty string and a missing
  \<open>min\<close> is \<open>None\<close>; both are falsy in the guards \<open>rule.type &&\<close> and \<open>rule.min &&\<close>, and
  so is \<open>min: 0\<close>.
\<close>

record field_rule =
  required :: bool
  rtype :: string
  rmin :: "int option"

definition field_of :: "(string \<times> jsval) list \<Rightarrow> string \<Rightarrow> jsval" where
  "field_of data field = (case map_of data field of None \<Rightarrow> JUndefined | Some v \<Rightarrow> v)"

text \<open>\<open>rule.min && data[field] < rule.min\<close>, giving the \<open>min\<close> that was violated.\<close>

definition below_min :: "field_rule \<Rightarrow> jsval \<Rightarrow> int option" where
  "below_min rule v =
     (case rmin rule of
        None \<Rightarrow> None
      | Some m \<Rightarrow> if m \<noteq> 0 \<and> js_lt v m then Some m else None)"

text \<open>
  \<open>validateInput(data, rules)\<close>: the rules in the order of \<open>Object.entries\<close>; the first
  violated test throws. \<open>None\<close> is a normal return.
\<close>

fun validateInput :: "(string \<times> jsval) list \<Rightarrow> (string \<times> field_rule) list \<Rightarrow> error option" where
  "validateInput data [] = None"
| "validateInput data ((field, rule) # rules) =
     (if required rule \<and> \<not> truthy (field_of data field)
      then Some (VALIDATION_ERROR field IsRequired)
      else if rtype rule \<noteq> [] \<and> typeof (field_of data field) \<noteq> rtype rule
      then Some (VALIDATION_ERROR field (MustBeOfType (rtype rule)))
      else (case below_min rule (field_of data field) of
              Some m \<Rightarrow> Some (VALIDATION_ERROR field (MustBeAtLeast m))
            | None \<Rightarrow> validateInput data rules))"

definition string_rule :: field_rule where
  "string_rule = \<lparr>required = True, rtype = ''string'', rmin = None\<rparr>"

definition number_rule :: "int \<Rightarrow> field_rule" where
  "number_rule m = \<lparr>required = True, rtype = ''number'', rmin = Some m\<rparr>"

section \<open>The store\<close>

text \<open>
  The tables of database.sql that the manager reads and writes, with the columns its
  statements name. The row identifiers, descriptions, supplier references and timestamps
  are left out, and so are the ranges of the column types (\<open>INT\<close>, \<open>DECIMAL(10, 2)\<close>,
  \<open>VARCHAR(50)\<close>): a price is a whole number of currency units. Keys are compared as
  they are written.
\<close>

record product =
  product_id :: string
  name :: string
  price :: int
  stock :: int
  category :: string

record transaction_row =
  transaction_id :: string
  tx_product_id :: string
  tx_quantity :: int
  tx_type :: string
  tx_customer_id :: string
  unit_price :: int
  total_amount :: int

text \<open>The argument of the \<open>transactionComplete\<close> event.\<close>

record transaction_info =
  ev_transactionId :: string
  ev_productId :: string
  ev_quantity :: int
  ev_type :: string
  ev_customerId :: string
  ev_totalAmount :: int

datatype event = LowStock product | TransactionComplete transaction_info

text \<open>
  The state: the three tables, and the events emitted so far in the order of the
  \<open>emit\<close> calls.
\<close>

record state =
  products :: "product list"
  transactions :: "transaction_row list"
  customers :: "string list"
  emitted :: "event list"

text \<open>
  How the database was set up. database.sql ends by creating the trigger
  \<open>trg_transaction_after_insert\<close>; server.js connects to a database of another name than
  the one the script creates, so the trigger's presence is a parameter. The script
  declares itself for MySQL 5.7 and later or MariaDB 10.2 and later: MySQL before 8.0.16
  parses a \<open>CHECK\<close> clause and ignores it, the later ones enforce it.
\<close>

record schema =
  stock_trigger :: bool
  checks_enforced :: bool

text \<open>\<open>SELECT * FROM products WHERE product_id = ?\<close>\<close>

definition select_product :: "state \<Rightarrow> string \<Rightarrow> product list" where
  "select_product st pid = filter (\<lambda>p. product_id p = pid) (products st)"

text \<open>
  \<open>UPDATE products SET stock = ?, updated_at = NOW() WHERE product_id = ?\<close>, for a
  value the column accepts. The value \<open>updateStock\<close> writes is negative only when the
  stock it read was, which a database that enforces \<open>CHECK (stock >= 0)\<close> never holds.
  The column is an \<open>INT\<close>: the database refuses a value above 2147483647 (or, outside
  strict mode, stores 2147483647 in its place), and that is not modelled: the sign rule
  below is stated for stocks from 0 to \<open>INT_MAX\<close>.
\<close>

definition set_stock :: "string \<Rightarrow> int \<Rightarrow> product list \<Rightarrow> product list" where
  "set_stock pid n ps = map (\<lambda>p. if product_id p = pid then p\<lparr>stock := n\<rparr> else p) ps"

text \<open>
  \<open>UPDATE products SET stock = stock + d WHERE product_id = ?\<close> as the trigger issues
  it; where \<open>CHECK (stock >= 0)\<close> is enforced, a row that would become negative fails
  the statement.
\<close>

definition add_stock :: "string \<Rightarrow> int \<Rightarrow> product list \<Rightarrow> product list" where
  "add_stock pid d ps = map (\<lambda>p. if product_id p = pid then p\<lparr>stock := stock p + d\<rparr> else p) ps"

definition update_add_stock :: "schema \<Rightarrow> string \<Rightarrow> int \<Rightarrow> product list \<Rightarrow> db_error + product list" where
  "update_add_stock sc pid d ps =
     (if checks_enforced sc \<and> (\<exists>p \<in> set (add_stock pid d ps). product_id p = pid \<and> stock p < 0)
      then Inl ER_CHECK_CONSTRAINT_VIOLATED
      else Inr (add_stock pid d ps))"

text \<open>
  The trigger of database.sql, after an insert into transactions: a sale subtracts the
  quantity from the product's stock, a purchase or restock adds it, any other type
  leaves it.
\<close>

definition trg_transaction_after_insert :: "schema \<Rightarrow> transaction_row \<Rightarrow> product list \<Rightarrow> db_error + product list" where
  "trg_transaction_after_insert sc new ps =
     (if tx_type new = ''sale''
      then update_add_stock sc (tx_product_id new) (- tx_quantity new) ps
      else if tx_type new = ''purchase'' \<or> tx_type new = ''restock''
      then update_add_stock sc (tx_product_id new) (tx_quantity new) ps
      else Inr ps)"

definition transaction_types :: "string list" where
  "transaction_types = [''sale'', ''purchase'', ''restock'', ''return'', ''adjustment'']"

text \<open>
  \<open>INSERT INTO transactions (...)\<close> against the constraints of database.sql: the unique
  key on \<open>transaction_id\<close>, the \<open>ENUM\<close> of \<open>type\<close> (strict SQL mode), the foreign keys to
  products and customers, and, where the trigger is installed, its update of the stock,
  which a violated \<open>CHECK (stock >= 0)\<close> turns into a failure of the whole statement. A
  failed statement leaves the state as it was. When several constraints are violated at
  once the error reported is the first in the order below.
\<close>

definition insert_transaction :: "schema \<Rightarrow> state \<Rightarrow> transaction_row \<Rightarrow> db_error + state" where
  "insert_transaction sc st new =
     (if transaction_id new \<in> set (map transaction_id (transactions st))
      then Inl ER_DUP_ENTRY
      else if tx_type new \<notin> set transaction_types
      then Inl WARN_DATA_TRUNCATED
      else if tx_product_id new \<notin> set (map product_id (products st))
              \<or> tx_customer_id new \<notin> set (customers st)
      then Inl ER_NO_REFERENCED_ROW_2
      else if stock_trigger sc
      then (case trg_transaction_after_insert sc new (products st) of
              Inl e \<Rightarrow> Inl e
            | Inr ps \<Rightarrow> Inr (st\<lparr>products := ps, transactions := transactions st @ [new]\<rparr>))
      else Inr (st\<lparr>transactions := transactions st @ [new]\<rparr>))"

text \<open>
  \<open>INSERT INTO products (...)\<close>: the unique key on \<open>product_id\<close>, and the two \<open>CHECK\<close>
  clauses where they are enforced.
\<close>

definition insert_product :: "schema \<Rightarrow> state \<Rightarrow> product \<Rightarrow> db_error + state" where
  "insert_product sc st new =
     (if product_id new \<in> set (map product_id (products st))
      then Inl ER_DUP_ENTRY
      else if checks_enforced sc \<and> (price new < 0 \<or> stock new < 0)
      then Inl ER_CHECK_CONSTRAINT_VIOLATED
      else Inr (st\<lparr>products := products st @ [new]\<rparr>))"

section \<open>The manager\<close>

text \<open>
  The fields of an \<open>InventoryManager\<close> that the methods read: the threshold, and the
  listeners registered with \<open>on\<close> for the two events, in registration order. A listener is
  modelled by what matters to its caller: it returns (\<open>None\<close>) or throws (\<open>Some\<close> of a
  message).
\<close>

record manager =
  lowStockThreshold :: int
  lowStock_listeners :: "(product \<Rightarrow> string option) list"
  transactionComplete_listeners :: "(transaction_info \<Rightarrow> string option) list"

text \<open>The two listeners of InventoryManager.js only write to the console.\<close>

definition handleLowStockNotification :: "product \<Rightarrow> string option" where
  "handleLowStockNotification p = None"

definition logTransaction :: "transaction_info \<Rightarrow> string option" where
  "logTransaction t = None"

text \<open>The constructor followed by \<open>init\<close>.\<close>

definition new_manager :: manager where
  "new_manager =
     \<lparr>lowStockThreshold = 10,
      lowStock_listeners = [handleLowStockNotification],
      transactionComplete_listeners = [logTransaction]\<rparr>"

text \<open>
  \<open>EventEmitter.emit\<close> of Node.js calls the listeners one after the other on the
  caller's stack; an exception thrown by a listener leaves \<open>emit\<close> at once and reaches
  the caller of \<open>emit\<close>.
\<close>

fun call_listeners :: "('a \<Rightarrow> string option) list \<Rightarrow> 'a \<Rightarrow> string option" where
  "call_listeners [] x = None"
| "call_listeners (l # ls) x =
     (case l x of Some thrown \<Rightarrow> Some thrown | None \<Rightarrow> call_listeners ls x)"

record update_result =
  oldStock :: int
  newStock :: int

record transaction_result =
  totalAmount :: int

text \<open>
  The end of \<open>updateStock\<close>, once \<open>newStock\<close> is computed: the \<open>UPDATE\<close>, the
  \<open>lowStock\<close> event when \<open>newStock <= this.lowStockThreshold\<close>, carrying
  \<open>{ ...product, stock: newStock }\<close>, and the result.
\<close>

definition write_stock :: "manager \<Rightarrow> state \<Rightarrow> string \<Rightarrow> product \<Rightarrow> int \<Rightarrow> (error + update_result) \<times> state" where
  "write_stock m st pid p new =
     (let st1 = st\<lparr>products := set_stock pid new (products st)\<rparr>
      in if new \<le> lowStockThreshold m
         then
           (let st2 = st1\<lparr>emitted := emitted st1 @ [LowStock (p\<lparr>stock := new\<rparr>)]\<rparr>
            in case call_listeners (lowStock_listeners m) (p\<lparr>stock := new\<rparr>) of
                 Some thrown \<Rightarrow> (Inl (ListenerError thrown), st2)
               | None \<Rightarrow> (Inr \<lparr>oldStock = stock p, newStock = new\<rparr>, st2))
         else (Inr \<lparr>oldStock = stock p, newStock = new\<rparr>, st1))"

text \<open>
  \<open>updateStock(productId, quantity, transactionType)\<close>. The \<open>catch\<close> block rethrows
  what it caught, so every \<open>throw\<close> is the method's own failure. After \<open>validateInput\<close>
  has returned, \<open>productId\<close> and \<open>transactionType\<close> are strings and \<open>quantity\<close> is a
  number, so the last case is not reached.
\<close>

definition updateStock_rules :: "(string \<times> field_rule) list" where
  "updateStock_rules =
     [(''productId'', string_rule),
      (''quantity'', number_rule 1),
      (''transactionType'', string_rule)]"

definition updateStock ::
  "manager \<Rightarrow> state \<Rightarrow> jsval \<Rightarrow> jsval \<Rightarrow> jsval \<Rightarrow> (error + update_result) \<times> state" where
  "updateStock m st productId quantity transactionType =
     (case validateInput
             [(''productId'', productId), (''quantity'', quantity),
              (''transactionType'', transactionType)]
             updateStock_rules of
        Some e \<Rightarrow> (Inl e, st)
      | None \<Rightarrow>
         (case (productId, quantity, transactionType) of
            (JStr pid, JNum q, JStr ty) \<Rightarrow>
              (case select_product st pid of
                 [] \<Rightarrow> (Inl (PRODUCT_NOT_FOUND pid), st)
               | p # _ \<Rightarrow>
                  if ty = ''purchase'' \<or> ty = ''restock''
                  then write_stock m st pid p (stock p + q)
                  else if ty = ''sale''
                  then (if stock p < q
                        then (Inl (INSUFFICIENT_STOCK (stock p) q), st)
                        else write_stock m st pid p (stock p - q))
                  else (Inl (INVALID_TRANSACTION_TYPE ty), st))
          | _ \<Rightarrow> (Inl (VALIDATION_ERROR [] IsRequired), st)))"

text \<open>
  \<open>createTransaction(transactionId, productId, quantity, type, customerId)\<close>: the
  statements run one after the other on the connection, each committed as it ends; the
  \<open>catch\<close> block rethrows what it caught.
\<close>

definition createTransaction_rules :: "(string \<times> field_rule) list" where
  "createTransaction_rules =
     [(''transactionId'', string_rule),
      (''productId'', string_rule),
      (''quantity'', number_rule 1),
      (''type'', string_rule),
      (''customerId'', string_rule)]"

definition createTransaction ::
  "manager \<Rightarrow> schema \<Rightarrow> state \<Rightarrow> jsval \<Rightarrow> jsval \<Rightarrow> jsval \<Rightarrow> jsval \<Rightarrow> jsval
     \<Rightarrow> (error + transaction_result) \<times> state" where
  "createTransaction m sc st transactionId productId quantity type customerId =
     (case validateInput
             [(''transactionId'', transactionId), (''productId'', productId),
              (''quantity'', quantity), (''type'', type), (''customerId'', customerId)]
             createTransaction_rules of
        Some e \<Rightarrow> (Inl e, st)
      | None \<Rightarrow>
         (case (transactionId, productId, quantity, type, customerId) of
            (JStr tid, JStr pid, JNum q, JStr ty, JStr cid) \<Rightarrow>
              (case select_product st pid of
                 [] \<Rightarrow> (Inl (PRODUCT_NOT_FOUND pid), st)
               | p # _ \<Rightarrow>
                  (case insert_transaction sc st
                          \<lparr>transaction_id = tid, tx_product_id = pid, tx_quantity = q,
                           tx_type = ty, tx_customer_id = cid, unit_price = price p,
                           total_amount = price p * q\<rparr> of
                     Inl e \<Rightarrow> (Inl (DbError e), st)
                   | Inr st1 \<Rightarrow>
                      (case updateStock m st1 productId quantity type of
                         (Inl e, st2) \<Rightarrow> (Inl e, st2)
                       | (Inr r, st2) \<Rightarrow>
                          (let info = \<lparr>ev_transactionId = tid, ev_productId = pid,
                                       ev_quantity = q, ev_type = ty, ev_customerId = cid,
                                       ev_totalAmount = price p * q\<rparr>;
                               st3 = st2\<lparr>emitted := emitted st2 @ [TransactionComplete info]\<rparr>
                           in case call_listeners (transactionComplete_listeners m) info of
                                Some thrown \<Rightarrow> (Inl (ListenerError thrown), st3)
                              | None \<Rightarrow> (Inr \<lparr>totalAmount = price p * q\<rparr>, st3)))))
          | _ \<Rightarrow> (Inl (VALIDATION_ERROR [] IsRequired), st)))"

text \<open>
  \<open>addProduct(productId, name, price, stock, category)\<close>: the \<open>catch\<close> block turns the
  driver's \<open>ER_DUP_ENTRY\<close> into \<open>DUPLICATE_PRODUCT\<close> and rethrows anything else. The
  identifier the database assigns to the row is not modelled.
\<close>

definition addProduct_rules :: "(string \<times> field_rule) list" where
  "addProduct_rules =
     [(''productId'', string_rule),
      (''name'', string_rule),
      (''price'', number_rule 0),
      (''stock'', number_rule 0),
      (''category'', string_rule)]"

definition addProduct ::
  "schema \<Rightarrow> state \<Rightarrow> jsval \<Rightarrow> jsval \<Rightarrow> jsval \<Rightarrow> jsval \<Rightarrow> jsval \<Rightarrow> (error + unit) \<times> state" where
  "addProduct sc st productId name' price' stock' category' =
     (case validateInput
             [(''productId'', productId), (''name'', name'), (''price'', price'),
              (''stock'', stock'), (''category'', category')]
             addProduct_rules of
        Some e \<Rightarrow> (Inl e, st)
      | None \<Rightarrow>
         (case (productId, name', price', stock', category') of
            (JStr pid, JStr n, JNum pr, JNum sk, JStr c) \<Rightarrow>
              (case insert_product sc st
                      \<lparr>product_id = pid, name = n, price = pr, stock = sk, category = c\<rparr> of
                 Inl e \<Rightarrow>
                   if e = ER_DUP_ENTRY then (Inl (DUPLICATE_PRODUCT pid), st)
                   else (Inl (DbError e), st)
               | Inr st1 \<Rightarrow> (Inr (), st1))
          | _ \<Rightarrow> (Inl (VALIDATION_ERROR [] IsRequired), st)))"

text \<open>
  \<open>getLowStockProducts(threshold = null)\<close>: \<open>threshold || this.lowStockThreshold\<close>, then
  \<open>SELECT * FROM products WHERE stock <= ? ORDER BY stock ASC\<close>. server.js passes
  \<open>parseInt(query.threshold)\<close>, a number or \<open>NaN\<close>. The comparison is written for a
  numeric parameter; a truthy parameter of another kind selects nothing here.
\<close>

definition stockThreshold :: "manager \<Rightarrow> jsval \<Rightarrow> jsval" where
  "stockThreshold m threshold = (if truthy threshold then threshold else JNum (lowStockThreshold m))"

fun stock_le :: "product \<Rightarrow> jsval \<Rightarrow> bool" where
  "stock_le p (JNum n) = (stock p \<le> n)"
| "stock_le p v = False"

definition getLowStockProducts :: "manager \<Rightarrow> state \<Rightarrow> jsval \<Rightarrow> product list" where
  "getLowStockProducts m st threshold =
     sort_key stock (filter (\<lambda>p. stock_le p (stockThreshold m threshold)) (products st))"

text \<open>
  The largest value of the \<open>INT\<close> column \<open>stock\<close>, and \<open>Number.MAX_SAFE_INTEGER\<close>,
  up to which every whole number is a double.
\<close>

definition INT_MAX :: int where
  "INT_MAX = 2147483647"

definition MAX_SAFE_INTEGER :: int where
  "MAX_SAFE_INTEGER = 9007199254740991"

text \<open>What a later \<open>SELECT\<close> of the product reads as \<open>products[0].stock\<close>.\<close>

definition stock_of :: "state \<Rightarrow> string \<Rightarrow> int option" where
  "stock_of st pid = (case select_product st pid of [] \<Rightarrow> None | p # _ \<Rightarrow> Some (stock p))"

text \<open>No listener of the list throws, whatever it is called with.\<close>

definition quiet :: "('a \<Rightarrow> string option) list \<Rightarrow> bool" where
  "quiet ls = (\<forall>x. call_listeners ls x = None)"

section \<open>Sequences of calls\<close>

datatype call =
    UpdateStock jsval jsval jsval
  | CreateTransaction jsval jsval jsval jsval jsval

text \<open>A call's outcome: whether it returned (rather than threw), and the state it left.\<close>

fun run_call :: "manager \<Rightarrow> schema \<Rightarrow> state \<Rightarrow> call \<Rightarrow> bool \<times> state" where
  "run_call m sc st (UpdateStock a b c) =
     (case updateStock m st a b c of (Inl e, st') \<Rightarrow> (False, st') | (Inr r, st') \<Rightarrow> (True, st'))"
| "run_call m sc st (CreateTransaction a b c d e) =
     (case createTransaction m sc st a b c d e of
        (Inl err, st') \<Rightarrow> (False, st') | (Inr r, st') \<Rightarrow> (True, st'))"

text \<open>The state after a sequence of calls that all returned; \<open>None\<close> when one of them threw.\<close>

fun all_succeed :: "manager \<Rightarrow> schema \<Rightarrow> state \<Rightarrow> call list \<Rightarrow> state option" where
  "all_succeed m sc st [] = Some st"
| "all_succeed m sc st (c # cs) =
     (case run_call m sc st c of
        (True, st') \<Rightarrow> all_succeed m sc st' cs
      | (False, st') \<Rightarrow> None)"

definition stock_nonneg :: "state \<Rightarrow> bool" where
  "stock_nonneg st = (\<forall>p \<in> set (products st). 0 \<le> stock p)"

section \<open>Example data\<close>

text \<open>
  The store of the specification's scenarios: one product \<open>P1\<close> priced 100 with the
  given stock, one customer \<open>C1\<close>, no transaction yet.
\<close>

definition store_with_stock :: "int \<Rightarrow> state" where
  "store_with_stock s =
     \<lparr>products = [\<lparr>product_id = ''P1'', name = ''Widget'', price = 100, stock = s, category = ''X''\<rparr>],
      transactions = [],
      customers = [''C1''],
      emitted = []\<rparr>"

text \<open>The same store after the sale \<open>T1\<close> of one unit to \<open>C1\<close>, from a stock of 5.\<close>

definition store_with_T1 :: state where
  "store_with_T1 =
     (store_with_stock 4)\<lparr>transactions :=
        [\<lparr>transaction_id = ''T1'', tx_product_id = ''P1'', tx_quantity = 1,
          tx_type = ''sale'', tx_customer_id = ''C1'', unit_price = 100,
          total_amount = 100\<rparr>]\<rparr>"

text \<open>The tables alone, and the database as database.sql sets it up.\<close>

definition plain_tables :: schema where
  "plain_tables = \<lparr>stock_trigger = False, checks_enforced = False\<rparr>"

definition database_sql :: "bool \<Rightarrow> schema" where
  "database_sql checks = \<lparr>stock_trigger = True, checks_enforced = checks\<rparr>"

text \<open>A manager on which one more \<open>lowStock\<close> listener was registered, which throws.\<close>

definition failing_listener :: "'a \<Rightarrow> string option" where
  "failing_listener x = Some ''observer failed''"

definition manager_with_failing_lowStock :: manager where
  "manager_with_failing_lowStock =
     new_manager\<lparr>lowStock_listeners := lowStock_listeners new_manager @ [failing_listener]\<rparr>"

definition manager_with_failing_transactionComplete :: manager where
  "manager_with_failing_transactionComplete =
     new_manager\<lparr>transactionComplete_listeners :=
       transactionComplete_listeners new_manager @ [failing_listener]\<rparr>"

section \<open>Validation: what the rules accept\<close>

lemma validateInput_error:
  "validateInput data rules = Some e \<Longrightarrow> \<exists>f v. e = VALIDATION_ERROR f v"
  by (induction data rules rule: validateInput.induct) (auto split: if_splits option.splits)

lemma validate_string_rule:
  "validateInput data ((f, string_rule) # rules) = None
   \<longleftrightarrow> (\<exists>s. field_of data f = JStr s \<and> s \<noteq> []) \<and> validateInput data rules = None"
  by (cases "field_of data f") (auto simp: string_rule_def below_min_def)

lemma validate_number_rule_1:
  "validateInput data ((f, number_rule 1) # rules) = None
   \<longleftrightarrow> (\<exists>q. field_of data f = JNum q \<and> 1 \<le> q) \<and> validateInput data rules = None"
  by (cases "field_of data f") (auto simp: number_rule_def below_min_def)

lemma validate_updateStock:
  "validateInput
     [(''productId'', productId), (''quantity'', quantity), (''transactionType'', transactionType)]
     updateStock_rules = None
   \<longleftrightarrow> (\<exists>pid. productId = JStr pid \<and> pid \<noteq> []) \<and> (\<exists>q. quantity = JNum q \<and> 1 \<le> q)
        \<and> (\<exists>ty. transactionType = JStr ty \<and> ty \<noteq> [])"
  unfolding updateStock_rules_def validate_string_rule validate_number_rule_1
  by (simp add: field_of_def)

lemma validate_createTransaction:
  "validateInput
     [(''transactionId'', transactionId), (''productId'', productId),
      (''quantity'', quantity), (''type'', type), (''customerId'', customerId)]
     createTransaction_rules = None
   \<longleftrightarrow> (\<exists>tid. transactionId = JStr tid \<and> tid \<noteq> []) \<and> (\<exists>pid. productId = JStr pid \<and> pid \<noteq> [])
        \<and> (\<exists>q. quantity = JNum q \<and> 1 \<le> q) \<and> (\<exists>ty. type = JStr ty \<and> ty \<noteq> [])
        \<and> (\<exists>cid. customerId = JStr cid \<and> cid \<noteq> [])"
  unfolding createTransaction_rules_def validate_string_rule validate_number_rule_1
  by (simp add: field_of_def)

section \<open>The cases of \<open>updateStock\<close>\<close>

lemma updateStock_valid:
  assumes "pid \<noteq> []" "1 \<le> q" "ty \<noteq> []"
  shows "updateStock m st (JStr pid) (JNum q) (JStr ty) =
     (case select_product st pid of
        [] \<Rightarrow> (Inl (PRODUCT_NOT_FOUND pid), st)
      | p # _ \<Rightarrow>
          if ty = ''purchase'' \<or> ty = ''restock''
          then write_stock m st pid p (stock p + q)
          else if ty = ''sale''
          then (if stock p < q
                then (Inl (INSUFFICIENT_STOCK (stock p) q), st)
                else write_stock m st pid p (stock p - q))
          else (Inl (INVALID_TRANSACTION_TYPE ty), st))"
proof -
  have "validateInput [(''productId'', JStr pid), (''quantity'', JNum q), (''transactionType'', JStr ty)] updateStock_rules = None"
    using assms by (simp add: validate_updateStock)
  then show ?thesis by (simp add: updateStock_def)
qed

lemma updateStock_cases [consumes 1, case_names early written]:
  assumes "updateStock m st a b c = (r, st')"
  obtains (early) e where "r = Inl e" "st' = st" "\<And>x. e \<noteq> ListenerError x"
  | (written) pid q ty p ps n where
      "a = JStr pid" "b = JNum q" "c = JStr ty" "pid \<noteq> []" "1 \<le> q" "ty \<noteq> []"
      "select_product st pid = p # ps"
      "(ty = ''purchase'' \<or> ty = ''restock'') \<and> n = stock p + q
         \<or> ty = ''sale'' \<and> q \<le> stock p \<and> n = stock p - q"
      "write_stock m st pid p n = (r, st')"
proof (cases "validateInput [(''productId'', a), (''quantity'', b), (''transactionType'', c)] updateStock_rules")
  case (Some e)
  then have "updateStock m st a b c = (Inl e, st)" by (simp add: updateStock_def)
  moreover from Some obtain f v where "e = VALIDATION_ERROR f v"
    using validateInput_error by blast
  ultimately show ?thesis using assms early by auto
next
  case None
  then obtain pid q ty where v: "a = JStr pid" "pid \<noteq> []" "b = JNum q" "1 \<le> q" "c = JStr ty" "ty \<noteq> []"
    unfolding validate_updateStock by blast
  note us = updateStock_valid [OF v(2) v(4) v(6), of m st]
  show ?thesis
  proof (cases "select_product st pid")
    case Nil
    with us assms v show ?thesis by (intro early [of "PRODUCT_NOT_FOUND pid"]) auto
  next
    case (Cons p ps)
    show ?thesis
    proof (cases "ty = ''purchase'' \<or> ty = ''restock''")
      case True
      with us assms v Cons show ?thesis
        by (intro written [of pid q ty p ps "stock p + q"]) auto
    next
      case notp: False
      show ?thesis
      proof (cases "ty = ''sale''")
        case True
        show ?thesis
        proof (cases "stock p < q")
          case True
          with us assms v Cons \<open>ty = ''sale''\<close> show ?thesis
            by (intro early [of "INSUFFICIENT_STOCK (stock p) q"]) auto
        next
          case False
          with us assms v Cons \<open>ty = ''sale''\<close> show ?thesis
            by (intro written [of pid q ty p ps "stock p - q"]) auto
        qed
      next
        case False
        with us assms v Cons notp show ?thesis
          by (intro early [of "INVALID_TRANSACTION_TYPE ty"]) auto
      qed
    qed
  qed
qed

lemma write_stock_products:
  "write_stock m st pid p n = (r, st') \<Longrightarrow> products st' = set_stock pid n (products st)"
  by (auto simp: write_stock_def Let_def split: if_splits option.splits)

lemma write_stock_tables:
  "write_stock m st pid p n = (r, st') \<Longrightarrow> transactions st' = transactions st \<and> customers st' = customers st"
  by (auto simp: write_stock_def Let_def split: if_splits option.splits)

lemma write_stock_emitted:
  "write_stock m st pid p n = (r, st') \<Longrightarrow>
     emitted st' = emitted st @ (if n \<le> lowStockThreshold m then [LowStock (p\<lparr>stock := n\<rparr>)] else [])"
  by (auto simp: write_stock_def Let_def split: if_splits option.splits)

lemma write_stock_result:
  "write_stock m st pid p n = (r, st') \<Longrightarrow>
     r = (if n \<le> lowStockThreshold m
          then (case call_listeners (lowStock_listeners m) (p\<lparr>stock := n\<rparr>) of
                  Some thrown \<Rightarrow> Inl (ListenerError thrown)
                | None \<Rightarrow> Inr \<lparr>oldStock = stock p, newStock = n\<rparr>)
          else Inr \<lparr>oldStock = stock p, newStock = n\<rparr>)"
  by (auto simp: write_stock_def Let_def split: if_splits option.splits)

lemma filter_set_stock_same:
  "filter (\<lambda>p. product_id p = pid) (set_stock pid n ps)
     = map (\<lambda>p. p\<lparr>stock := n\<rparr>) (filter (\<lambda>p. product_id p = pid) ps)"
  by (induction ps) (auto simp: set_stock_def)

lemma filter_set_stock_other:
  "pid' \<noteq> pid \<Longrightarrow>
     filter (\<lambda>p. product_id p = pid') (set_stock pid n ps) = filter (\<lambda>p. product_id p = pid') ps"
  by (induction ps) (auto simp: set_stock_def)

lemma stock_of_set_stock:
  assumes "stock_of st pid = Some s" and "products st' = set_stock pid n (products st)"
  shows "stock_of st' pid = Some n"
  using assms by (auto simp: stock_of_def select_product_def filter_set_stock_same split: list.splits)

lemma stock_of_set_stock_other:
  assumes "pid' \<noteq> pid" and "products st' = set_stock pid n (products st)"
  shows "stock_of st' pid' = stock_of st pid'"
  using assms by (simp add: stock_of_def select_product_def filter_set_stock_other)

lemma quiet_new_manager:
  "quiet (lowStock_listeners new_manager)" "quiet (transactionComplete_listeners new_manager)"
  by (simp_all add: quiet_def new_manager_def handleLowStockNotification_def logTransaction_def)

lemma stock_of_store_with_stock: "stock_of (store_with_stock s) ''P1'' = Some s"
  by (simp add: stock_of_def select_product_def store_with_stock_def)

lemma write_stock_effect:
  assumes "stock_of st pid = Some s" and "select_product st pid = p # ps"
    and "write_stock m st pid p n = (r, st')"
  shows "stock_of st' pid = Some n"
    and "r = Inr \<lparr>oldStock = s, newStock = n\<rparr> \<or> (\<exists>x. r = Inl (ListenerError x))"
    and "quiet (lowStock_listeners m) \<Longrightarrow> r = Inr \<lparr>oldStock = s, newStock = n\<rparr>"
proof -
  from assms(1,2) have s: "stock p = s" by (simp add: stock_of_def)
  show "stock_of st' pid = Some n"
    using stock_of_set_stock [OF assms(1) write_stock_products [OF assms(3)]] .
  show "r = Inr \<lparr>oldStock = s, newStock = n\<rparr> \<or> (\<exists>x. r = Inl (ListenerError x))"
    using write_stock_result [OF assms(3)] s by (auto split: if_splits option.splits)
  show "r = Inr \<lparr>oldStock = s, newStock = n\<rparr>" if "quiet (lowStock_listeners m)"
    using write_stock_result [OF assms(3)] s that by (auto simp: quiet_def split: if_splits)
qed

section \<open>The sign rule of the stock update\<close>

lemma updateStock_type_rejected:
  assumes "pid \<noteq> []" and "1 \<le> q"
    and "\<forall>ty. transactionType = JStr ty \<longrightarrow> ty = []"
  shows "\<exists>v. updateStock m st (JStr pid) (JNum q) transactionType
              = (Inl (VALIDATION_ERROR ''transactionType'' v), st)"
proof -
  have "\<exists>v. validateInput
      [(''productId'', JStr pid), (''quantity'', JNum q), (''transactionType'', transactionType)]
      updateStock_rules = Some (VALIDATION_ERROR ''transactionType'' v)"
    using assms
    by (cases transactionType)
       (simp_all add: updateStock_rules_def string_rule_def number_rule_def field_of_def
          below_min_def)
  then show ?thesis by (auto simp: updateStock_def)
qed

text \<open>
  C3, as amended. For an existing product whose stock reads \<open>s\<close>, a value of the column
  (0 to \<open>INT_MAX\<close>), and a whole quantity \<open>q\<close> from 1 to \<open>MAX_SAFE_INTEGER\<close>: with type
  \<open>purchase\<close> or \<open>restock\<close> \<open>updateStock\<close> sets the stock to \<open>s + q\<close>, as long as
  the column holds that sum; with type \<open>sale\<close> it sets it to \<open>s - q\<close>, unless the stock
  is short, which is refused with \<open>INSUFFICIENT_STOCK\<close>; with any other non-empty string
  as type, \<open>return\<close> and \<open>adjustment\<close> included, it fails with
  \<open>INVALID_TRANSACTION_TYPE\<close> and writes nothing. A type that is missing, empty or not a
  string does not reach the sign rule: \<open>validateInput\<close> refuses it with a
  \<open>VALIDATION_ERROR\<close>. When the call returns, it returns the old and the new stock; the
  only way not to return after the write is an exception of a \<open>lowStock\<close> listener,
  which the listeners of the source never throw.
\<close>

theorem updateStock_sign_rule:
  assumes "stock_of st pid = Some s" and "0 \<le> s" and "s \<le> INT_MAX"
    and "pid \<noteq> []" and "1 \<le> q" and "q \<le> MAX_SAFE_INTEGER"
    and "updateStock m st (JStr pid) (JNum q) transactionType = (r, st')"
  shows "((transactionType = JStr ''purchase'' \<or> transactionType = JStr ''restock'')
            \<and> s + q \<le> INT_MAX \<longrightarrow>
            stock_of st' pid = Some (s + q) \<and>
            (r = Inr \<lparr>oldStock = s, newStock = s + q\<rparr> \<or> (\<exists>x. r = Inl (ListenerError x))))
       \<and> (transactionType = JStr ''sale'' \<and> q \<le> s \<longrightarrow>
            stock_of st' pid = Some (s - q) \<and>
            (r = Inr \<lparr>oldStock = s, newStock = s - q\<rparr> \<or> (\<exists>x. r = Inl (ListenerError x))))
       \<and> (transactionType = JStr ''sale'' \<and> s < q \<longrightarrow>
            r = Inl (INSUFFICIENT_STOCK s q) \<and> st' = st)
       \<and> (\<forall>ty. transactionType = JStr ty \<and> ty \<noteq> []
              \<and> ty \<noteq> ''purchase'' \<and> ty \<noteq> ''restock'' \<and> ty \<noteq> ''sale'' \<longrightarrow>
            r = Inl (INVALID_TRANSACTION_TYPE ty) \<and> st' = st)
       \<and> ((\<forall>ty. transactionType = JStr ty \<longrightarrow> ty = []) \<longrightarrow>
            (\<exists>v. r = Inl (VALIDATION_ERROR ''transactionType'' v)) \<and> st' = st)
       \<and> (quiet (lowStock_listeners m) \<longrightarrow> (\<forall>x. r \<noteq> Inl (ListenerError x)))"
proof (cases "\<forall>ty. transactionType = JStr ty \<longrightarrow> ty = []")
  case True
  from updateStock_type_rejected [OF assms(4,5) True, of m st] assms(7)
  obtain v where "r = Inl (VALIDATION_ERROR ''transactionType'' v)" "st' = st" by auto
  with True show ?thesis by auto
next
  case False
  then obtain ty where ty: "transactionType = JStr ty" "ty \<noteq> []" by blast
  from assms(1) obtain p ps where sel: "select_product st pid = p # ps" and s: "stock p = s"
    by (auto simp: stock_of_def split: list.splits)
  note us = updateStock_valid [OF assms(4,5) ty(2), of m st, unfolded sel list.case s]
  note w = write_stock_effect [OF assms(1) sel, of m _ r st']
  note call = assms(7) [unfolded ty(1)]
  consider (add) "ty = ''purchase'' \<or> ty = ''restock''"
    | (sub) "ty = ''sale''" "q \<le> s"
    | (short) "ty = ''sale''" "s < q"
    | (other) "ty \<noteq> ''purchase''" "ty \<noteq> ''restock''" "ty \<noteq> ''sale''"
    by fastforce
  then show ?thesis
  proof cases
    case add
    with us call have "write_stock m st pid p (s + q) = (r, st')" by simp
    from w [OF this] add ty show ?thesis by auto
  next
    case sub
    with us call have "write_stock m st pid p (s - q) = (r, st')" by simp
    from w [OF this] sub ty show ?thesis by auto
  next
    case short
    with us call ty show ?thesis by auto
  next
    case other
    with us call ty show ?thesis by auto
  qed
qed

theorem updateStock_sign_rule_witness:
  "stock_of (store_with_stock 5) ''P1'' = Some 5
   \<and> (0::int) \<le> 5 \<and> 5 \<le> INT_MAX \<and> 7 \<le> MAX_SAFE_INTEGER \<and> 5 + 7 \<le> INT_MAX
   \<and> updateStock new_manager (store_with_stock 5) (JStr ''P1'') (JNum 3) (JStr ''sale'')
       = (Inr \<lparr>oldStock = 5, newStock = 2\<rparr>,
          (store_with_stock 2)\<lparr>emitted :=
             [LowStock \<lparr>product_id = ''P1'', name = ''Widget'', price = 100, stock = 2,
                        category = ''X''\<rparr>]\<rparr>)
   \<and> updateStock new_manager (store_with_stock 5) (JStr ''P1'') (JNum 7) (JStr ''purchase'')
       = (Inr \<lparr>oldStock = 5, newStock = 12\<rparr>, store_with_stock 12)
   \<and> updateStock new_manager (store_with_stock 5) (JStr ''P1'') (JNum 7) (JStr ''restock'')
       = (Inr \<lparr>oldStock = 5, newStock = 12\<rparr>, store_with_stock 12)
   \<and> updateStock new_manager (store_with_stock 5) (JStr ''P1'') (JNum 7) (JStr ''sale'')
       = (Inl (INSUFFICIENT_STOCK 5 7), store_with_stock 5)
   \<and> updateStock new_manager (store_with_stock 5) (JStr ''P1'') (JNum 1) (JStr ''return'')
       = (Inl (INVALID_TRANSACTION_TYPE ''return''), store_with_stock 5)
   \<and> updateStock new_manager (store_with_stock 5) (JStr ''P1'') (JNum 1) (JStr ''adjustment'')
       = (Inl (INVALID_TRANSACTION_TYPE ''adjustment''), store_with_stock 5)
   \<and> updateStock new_manager (store_with_stock 5) (JStr ''P1'') (JNum 1) JNull
       = (Inl (VALIDATION_ERROR ''transactionType'' IsRequired), store_with_stock 5)"
proof -
  have s: "stock_of (store_with_stock 5) ''P1'' = Some 5"
    by (rule stock_of_store_with_stock)
  have lo: "(0::int) \<le> 5" and hi: "5 \<le> INT_MAX" and room: "5 + 7 \<le> INT_MAX"
    by (simp_all add: INT_MAX_def)
  have safe: "q \<le> 7 \<Longrightarrow> q \<le> MAX_SAFE_INTEGER" for q
    by (simp add: MAX_SAFE_INTEGER_def)
  have sale: "updateStock new_manager (store_with_stock 5) (JStr ''P1'') (JNum 3) (JStr ''sale'')
       = (Inr \<lparr>oldStock = 5, newStock = 2\<rparr>,
          (store_with_stock 2)\<lparr>emitted :=
             [LowStock \<lparr>product_id = ''P1'', name = ''Widget'', price = 100, stock = 2,
                        category = ''X''\<rparr>]\<rparr>)"
    by (simp add: updateStock_valid write_stock_def store_with_stock_def select_product_def
        set_stock_def new_manager_def handleLowStockNotification_def)
  have purchase: "updateStock new_manager (store_with_stock 5) (JStr ''P1'') (JNum 7) (JStr ''purchase'')
       = (Inr \<lparr>oldStock = 5, newStock = 12\<rparr>, store_with_stock 12)"
    by (simp add: updateStock_valid write_stock_def store_with_stock_def select_product_def
        set_stock_def new_manager_def handleLowStockNotification_def)
  have restock: "updateStock new_manager (store_with_stock 5) (JStr ''P1'') (JNum 7) (JStr ''restock'')
       = (Inr \<lparr>oldStock = 5, newStock = 12\<rparr>, store_with_stock 12)"
    by (simp add: updateStock_valid write_stock_def store_with_stock_def select_product_def
        set_stock_def new_manager_def handleLowStockNotification_def)
  have short: "updateStock new_manager (store_with_stock 5) (JStr ''P1'') (JNum 7) (JStr ''sale'')
       = (Inl (INSUFFICIENT_STOCK 5 7), store_with_stock 5)"
    by (simp add: updateStock_valid store_with_stock_def select_product_def)
  have return: "updateStock new_manager (store_with_stock 5) (JStr ''P1'') (JNum 1) (JStr ''return'')
       = (Inl (INVALID_TRANSACTION_TYPE ''return''), store_with_stock 5)"
    by (simp add: updateStock_valid store_with_stock_def select_product_def)
  have adjustment: "updateStock new_manager (store_with_stock 5) (JStr ''P1'') (JNum 1) (JStr ''adjustment'')
       = (Inl (INVALID_TRANSACTION_TYPE ''adjustment''), store_with_stock 5)"
    by (simp add: updateStock_valid store_with_stock_def select_product_def)
  have missing: "updateStock new_manager (store_with_stock 5) (JStr ''P1'') (JNum 1) JNull
       = (Inl (VALIDATION_ERROR ''transactionType'' IsRequired), store_with_stock 5)"
    by (simp add: updateStock_def updateStock_rules_def string_rule_def number_rule_def
        field_of_def below_min_def)
  from updateStock_sign_rule [OF s lo hi _ _ safe sale]
    updateStock_sign_rule [OF s lo hi _ _ safe purchase]
    updateStock_sign_rule [OF s lo hi _ _ safe restock]
    updateStock_sign_rule [OF s lo hi _ _ safe short]
    updateStock_sign_rule [OF s lo hi _ _ safe return]
    updateStock_sign_rule [OF s lo hi _ _ safe adjustment]
    updateStock_sign_rule [OF s lo hi _ _ safe missing]
  show ?thesis
    using s lo hi room sale purchase restock short return adjustment missing
    by (simp add: MAX_SAFE_INTEGER_def)
qed

text \<open>
  C3 as stated fails for the types that validation refuses: the empty string, a missing
  type and a number as type give a \<open>VALIDATION_ERROR\<close>, not
  \<open>INVALID_TRANSACTION_TYPE\<close>.
\<close>

theorem updateStock_empty_type_is_validation_error:
  "updateStock new_manager (store_with_stock 5) (JStr ''P1'') (JNum 1) (JStr [])
     = (Inl (VALIDATION_ERROR ''transactionType'' IsRequired), store_with_stock 5)
   \<and> updateStock new_manager (store_with_stock 5) (JStr ''P1'') (JNum 1) JUndefined
     = (Inl (VALIDATION_ERROR ''transactionType'' IsRequired), store_with_stock 5)
   \<and> updateStock new_manager (store_with_stock 5) (JStr ''P1'') (JNum 1) (JNum 7)
     = (Inl (VALIDATION_ERROR ''transactionType'' (MustBeOfType ''string'')), store_with_stock 5)
   \<and> updateStock new_manager (store_with_stock 5) (JStr ''P1'') (JNum 1) (JStr [])
     \<noteq> (Inl (INVALID_TRANSACTION_TYPE []), store_with_stock 5)"
  by (simp add: updateStock_def updateStock_rules_def string_rule_def number_rule_def
      field_of_def below_min_def)

section \<open>The boundary of a sale\<close>

text \<open>
  C4. For an existing product whose stock is \<open>s \<ge> 1\<close>: a sale of exactly \<open>s\<close> leaves
  the stock at 0 and, no listener throwing, returns \<open>{oldStock: s, newStock: 0}\<close>; a
  sale of \<open>s + 1\<close> fails with \<open>INSUFFICIENT_STOCK\<close> reporting \<open>s\<close> available and
  \<open>s + 1\<close> requested, and leaves the state as it was.
\<close>

theorem sale_boundary:
  assumes "stock_of st pid = Some s" and "1 \<le> s" and "pid \<noteq> []"
  shows "stock_of (snd (updateStock m st (JStr pid) (JNum s) (JStr ''sale''))) pid = Some 0
       \<and> (quiet (lowStock_listeners m) \<longrightarrow>
            fst (updateStock m st (JStr pid) (JNum s) (JStr ''sale''))
              = Inr \<lparr>oldStock = s, newStock = 0\<rparr>)
       \<and> updateStock m st (JStr pid) (JNum (s + 1)) (JStr ''sale'')
            = (Inl (INSUFFICIENT_STOCK s (s + 1)), st)"
proof -
  from assms(1) obtain p ps where sel: "select_product st pid = p # ps" and s: "stock p = s"
    by (auto simp: stock_of_def split: list.splits)
  have exact: "updateStock m st (JStr pid) (JNum s) (JStr ''sale'') = write_stock m st pid p 0"
    using updateStock_valid [OF assms(3,2), of "''sale''" m st] sel s by simp
  have over: "updateStock m st (JStr pid) (JNum (s + 1)) (JStr ''sale'')
      = (Inl (INSUFFICIENT_STOCK s (s + 1)), st)"
    using updateStock_valid [OF assms(3), of "s + 1" "''sale''" m st] assms(2) sel s by simp
  have w: "write_stock m st pid p 0 = (fst (write_stock m st pid p 0), snd (write_stock m st pid p 0))"
    by simp
  show ?thesis
    using write_stock_effect(1,3) [OF assms(1) sel w] exact over by simp
qed

theorem sale_boundary_witness:
  "stock_of (store_with_stock 5) ''P1'' = Some 5
   \<and> fst (updateStock new_manager (store_with_stock 5) (JStr ''P1'') (JNum 5) (JStr ''sale''))
       = Inr \<lparr>oldStock = 5, newStock = 0\<rparr>
   \<and> stock_of (snd (updateStock new_manager (store_with_stock 5) (JStr ''P1'') (JNum 5) (JStr ''sale'')))
       ''P1'' = Some 0
   \<and> updateStock new_manager (store_with_stock 5) (JStr ''P1'') (JNum 6) (JStr ''sale'')
       = (Inl (INSUFFICIENT_STOCK 5 6), store_with_stock 5)"
  using sale_boundary [of "store_with_stock 5" "''P1''" 5 new_manager]
  by (simp add: stock_of_store_with_stock quiet_new_manager)

section \<open>The low-stock notification\<close>

lemma select_product_id:
  "select_product st pid = p # ps \<Longrightarrow> product_id p = pid"
  by (metis (mono_tags, lifting) filter_eq_ConsD select_product_def)

text \<open>
  C6. With the threshold at 10, as the constructor sets it: when \<open>updateStock\<close> returns,
  it has emitted one \<open>lowStock\<close> event if the new stock is at most 10, and none
  otherwise; the event carries the product read, with the new stock, which is also what
  the store then holds. A purchase that takes the stock from 9 to 15 emits nothing; a
  sale that takes it from 12 to 8 emits the event with stock 8.
\<close>

theorem lowStock_notification:
  assumes "lowStockThreshold m = 10"
    and "updateStock m st productId quantity transactionType = (Inr res, st')"
  shows "(newStock res \<le> 10 \<longrightarrow>
            (\<exists>p. emitted st' = emitted st @ [LowStock p]
                 \<and> JStr (product_id p) = productId
                 \<and> stock p = newStock res
                 \<and> stock_of st' (product_id p) = Some (newStock res)))
       \<and> (10 < newStock res \<longrightarrow> emitted st' = emitted st)"
  using assms(2)
proof (cases rule: updateStock_cases)
  case (early e)
  then show ?thesis by simp
next
  case (written pid q ty p ps n)
  note ws = written(9)
  from write_stock_result [OF ws] have res: "res = \<lparr>oldStock = stock p, newStock = n\<rparr>"
    by (auto split: if_splits option.splits)
  have id: "product_id p = pid" using written(7) by (rule select_product_id)
  have so: "stock_of st pid = Some (stock p)" using written(7) by (simp add: stock_of_def)
  have after: "stock_of st' pid = Some n"
    using stock_of_set_stock [OF so write_stock_products [OF ws]] .
  show ?thesis
    using write_stock_emitted [OF ws] res id after assms(1) written(1) by auto
qed

theorem lowStock_notification_witness:
  "lowStockThreshold new_manager = 10
   \<and> updateStock new_manager (store_with_stock 12) (JStr ''P1'') (JNum 4) (JStr ''sale'')
       = (Inr \<lparr>oldStock = 12, newStock = 8\<rparr>,
          (store_with_stock 8)\<lparr>emitted :=
             [LowStock \<lparr>product_id = ''P1'', name = ''Widget'', price = 100, stock = 8,
                        category = ''X''\<rparr>]\<rparr>)
   \<and> updateStock new_manager (store_with_stock 9) (JStr ''P1'') (JNum 6) (JStr ''purchase'')
       = (Inr \<lparr>oldStock = 9, newStock = 15\<rparr>, store_with_stock 15)"
proof -
  have thr: "lowStockThreshold new_manager = 10" by (simp add: new_manager_def)
  have sale: "updateStock new_manager (store_with_stock 12) (JStr ''P1'') (JNum 4) (JStr ''sale'')
       = (Inr \<lparr>oldStock = 12, newStock = 8\<rparr>,
          (store_with_stock 8)\<lparr>emitted :=
             [LowStock \<lparr>product_id = ''P1'', name = ''Widget'', price = 100, stock = 8,
                        category = ''X''\<rparr>]\<rparr>)"
    by (simp add: updateStock_valid write_stock_def store_with_stock_def select_product_def
        set_stock_def new_manager_def handleLowStockNotification_def)
  have purchase: "updateStock new_manager (store_with_stock 9) (JStr ''P1'') (JNum 6) (JStr ''purchase'')
       = (Inr \<lparr>oldStock = 9, newStock = 15\<rparr>, store_with_stock 15)"
    by (simp add: updateStock_valid write_stock_def store_with_stock_def select_product_def
        set_stock_def new_manager_def handleLowStockNotification_def)
  from lowStock_notification [OF thr sale] lowStock_notification [OF thr purchase]
  show ?thesis using thr sale purchase by simp
qed

section \<open>The threshold of the low-stock report\<close>

lemma set_getLowStockProducts:
  "set (getLowStockProducts m st t) = {p \<in> set (products st). stock_le p (stockThreshold m t)}"
  by (simp add: getLowStockProducts_def)

text \<open>
  C10. A falsy \<open>threshold\<close> (0, \<open>null\<close>, \<open>undefined\<close>, \<open>NaN\<close>, and also \<open>false\<close> and the
  empty string) is replaced by the manager's threshold: the report is the one for that
  threshold, the products with a stock of at most \<open>lowStockThreshold\<close>, 10 by default,
  not those with a stock of at most 0.
\<close>

theorem getLowStockProducts_falsy_threshold:
  assumes "\<not> truthy threshold"
  shows "getLowStockProducts m st threshold = getLowStockProducts m st (JNum (lowStockThreshold m))
       \<and> set (getLowStockProducts m st threshold)
           = {p \<in> set (products st). stock p \<le> lowStockThreshold m}"
  using assms by (simp add: getLowStockProducts_def stockThreshold_def)

theorem getLowStockProducts_falsy_threshold_witness:
  "\<not> truthy (JNum 0) \<and> \<not> truthy JNull \<and> \<not> truthy JUndefined \<and> \<not> truthy JNaN
   \<and> getLowStockProducts new_manager (store_with_stock 5) (JNum 0) = products (store_with_stock 5)
   \<and> getLowStockProducts new_manager (store_with_stock 5) JNull = products (store_with_stock 5)
   \<and> getLowStockProducts new_manager (store_with_stock 5) JUndefined = products (store_with_stock 5)
   \<and> getLowStockProducts new_manager (store_with_stock 5) JNaN = products (store_with_stock 5)
   \<and> getLowStockProducts new_manager (store_with_stock 5) (JNum 10) = products (store_with_stock 5)
   \<and> getLowStockProducts new_manager (store_with_stock 5) (JNum 1) = []"
  using getLowStockProducts_falsy_threshold [of "JNum 0" new_manager "store_with_stock 5"]
    getLowStockProducts_falsy_threshold [of JNull new_manager "store_with_stock 5"]
    getLowStockProducts_falsy_threshold [of JUndefined new_manager "store_with_stock 5"]
    getLowStockProducts_falsy_threshold [of JNaN new_manager "store_with_stock 5"]
  by (simp add: getLowStockProducts_def stockThreshold_def new_manager_def store_with_stock_def)

section \<open>The cases of \<open>createTransaction\<close>\<close>

lemma createTransaction_valid:
  assumes "tid \<noteq> []" "pid \<noteq> []" "1 \<le> q" "ty \<noteq> []" "cid \<noteq> []"
  shows "createTransaction m sc st (JStr tid) (JStr pid) (JNum q) (JStr ty) (JStr cid) =
     (case select_product st pid of
        [] \<Rightarrow> (Inl (PRODUCT_NOT_FOUND pid), st)
      | p # _ \<Rightarrow>
         (case insert_transaction sc st
                 \<lparr>transaction_id = tid, tx_product_id = pid, tx_quantity = q,
                  tx_type = ty, tx_customer_id = cid, unit_price = price p,
                  total_amount = price p * q\<rparr> of
            Inl e \<Rightarrow> (Inl (DbError e), st)
          | Inr st1 \<Rightarrow>
             (case updateStock m st1 (JStr pid) (JNum q) (JStr ty) of
                (Inl e, st2) \<Rightarrow> (Inl e, st2)
              | (Inr r, st2) \<Rightarrow>
                 (case call_listeners (transactionComplete_listeners m)
                         \<lparr>ev_transactionId = tid, ev_productId = pid,
                          ev_quantity = q, ev_type = ty, ev_customerId = cid,
                          ev_totalAmount = price p * q\<rparr> of
                    Some thrown \<Rightarrow>
                      (Inl (ListenerError thrown),
                       st2\<lparr>emitted := emitted st2 @
                         [TransactionComplete
                           \<lparr>ev_transactionId = tid, ev_productId = pid,
                            ev_quantity = q, ev_type = ty, ev_customerId = cid,
                            ev_totalAmount = price p * q\<rparr>]\<rparr>)
                  | None \<Rightarrow>
                      (Inr \<lparr>totalAmount = price p * q\<rparr>,
                       st2\<lparr>emitted := emitted st2 @
                         [TransactionComplete
                           \<lparr>ev_transactionId = tid, ev_productId = pid,
                            ev_quantity = q, ev_type = ty, ev_customerId = cid,
                            ev_totalAmount = price p * q\<rparr>]\<rparr>)))))"
proof -
  have "validateInput
     [(''transactionId'', JStr tid), (''productId'', JStr pid),
      (''quantity'', JNum q), (''type'', JStr ty), (''customerId'', JStr cid)]
     createTransaction_rules = None"
    using assms by (simp add: validate_createTransaction)
  then show ?thesis
    by (simp add: createTransaction_def Let_def split: list.splits sum.splits prod.splits option.splits)
qed

lemma createTransaction_cases [consumes 1, case_names early inserted]:
  assumes "createTransaction m sc st a b c d e = (r, st')"
  obtains (early) err where "r = Inl err" "st' = st"
      "(\<exists>f v. err = VALIDATION_ERROR f v) \<or> (\<exists>pid. err = PRODUCT_NOT_FOUND pid)
         \<or> (\<exists>x. err = DbError x)"
  | (inserted) tid pid q ty cid p ps st1 r2 st2 where
      "a = JStr tid" "b = JStr pid" "c = JNum q" "d = JStr ty" "e = JStr cid"
      "1 \<le> q" "pid \<noteq> []"
      "select_product st pid = p # ps"
      "insert_transaction sc st
         \<lparr>transaction_id = tid, tx_product_id = pid, tx_quantity = q,
          tx_type = ty, tx_customer_id = cid, unit_price = price p,
          total_amount = price p * q\<rparr> = Inr st1"
      "updateStock m st1 (JStr pid) (JNum q) (JStr ty) = (r2, st2)"
      "case r2 of
         Inl err \<Rightarrow> r = Inl err \<and> st' = st2
       | Inr res \<Rightarrow>
           st' = st2\<lparr>emitted := emitted st2 @
                   [TransactionComplete
                      \<lparr>ev_transactionId = tid, ev_productId = pid,
                       ev_quantity = q, ev_type = ty, ev_customerId = cid,
                       ev_totalAmount = price p * q\<rparr>]\<rparr>
           \<and> r = (case call_listeners (transactionComplete_listeners m)
                         \<lparr>ev_transactionId = tid, ev_productId = pid,
                          ev_quantity = q, ev_type = ty, ev_customerId = cid,
                          ev_totalAmount = price p * q\<rparr> of
                    Some thrown \<Rightarrow> Inl (ListenerError thrown)
                  | None \<Rightarrow> Inr \<lparr>totalAmount = price p * q\<rparr>)"
      "tid \<noteq> []" "ty \<noteq> []" "cid \<noteq> []"
proof (cases "validateInput
     [(''transactionId'', a), (''productId'', b),
      (''quantity'', c), (''type'', d), (''customerId'', e)]
     createTransaction_rules")
  case (Some err)
  then have "createTransaction m sc st a b c d e = (Inl err, st)"
    by (simp add: createTransaction_def)
  moreover from Some obtain f v where "err = VALIDATION_ERROR f v"
    using validateInput_error by blast
  ultimately show ?thesis using assms early by auto
next
  case None
  then obtain tid pid q ty cid where v:
    "a = JStr tid" "tid \<noteq> []" "b = JStr pid" "pid \<noteq> []" "c = JNum q" "1 \<le> q"
    "d = JStr ty" "ty \<noteq> []" "e = JStr cid" "cid \<noteq> []"
    unfolding validate_createTransaction by blast
  note ct = createTransaction_valid [OF v(2) v(4) v(6) v(8) v(10), of m sc st]
  show ?thesis
  proof (cases "select_product st pid")
    case Nil
    with ct assms v show ?thesis by (intro early [of "PRODUCT_NOT_FOUND pid"]) auto
  next
    case (Cons p ps)
    let ?row = "\<lparr>transaction_id = tid, tx_product_id = pid, tx_quantity = q,
          tx_type = ty, tx_customer_id = cid, unit_price = price p,
          total_amount = price p * q\<rparr>"
    show ?thesis
    proof (cases "insert_transaction sc st ?row")
      case (Inl x)
      with ct assms v Cons show ?thesis by (intro early [of "DbError x"]) auto
    next
      case (Inr st1)
      obtain r2 st2 where us: "updateStock m st1 (JStr pid) (JNum q) (JStr ty) = (r2, st2)"
        by (cases "updateStock m st1 (JStr pid) (JNum q) (JStr ty)") auto
      show ?thesis
      proof (rule inserted [OF v(1) v(3) v(5) v(7) v(9) v(6) v(4) Cons Inr us _ v(2) v(8) v(10)])
        show "case r2 of
         Inl err \<Rightarrow> r = Inl err \<and> st' = st2
       | Inr res \<Rightarrow>
           st' = st2\<lparr>emitted := emitted st2 @
                   [TransactionComplete
                      \<lparr>ev_transactionId = tid, ev_productId = pid,
                       ev_quantity = q, ev_type = ty, ev_customerId = cid,
                       ev_totalAmount = price p * q\<rparr>]\<rparr>
           \<and> r = (case call_listeners (transactionComplete_listeners m)
                         \<lparr>ev_transactionId = tid, ev_productId = pid,
                          ev_quantity = q, ev_type = ty, ev_customerId = cid,
                          ev_totalAmount = price p * q\<rparr> of
                    Some thrown \<Rightarrow> Inl (ListenerError thrown)
                  | None \<Rightarrow> Inr \<lparr>totalAmount = price p * q\<rparr>)"
          using ct assms v Cons Inr us
          by (auto split: sum.splits option.splits)
      qed
    qed
  qed
qed

section \<open>The insert and its trigger\<close>

lemma stock_update_same: "p\<lparr>stock := stock p\<rparr> = (p::product)"
  by (cases p) simp

lemma add_stock_zero: "add_stock pid 0 ps = ps"
  unfolding add_stock_def by (rule map_idI) (simp add: stock_update_same)

lemma add_stock_other:
  "p \<in> set (add_stock pid d ps) \<Longrightarrow> product_id p \<noteq> pid \<Longrightarrow> p \<in> set ps"
  by (auto simp: add_stock_def split: if_splits)

lemma add_stock_same:
  assumes "p \<in> set (add_stock pid d ps)" and "product_id p = pid"
  shows "\<exists>p0 \<in> set ps. stock p = stock p0 + d"
proof -
  from assms(1) obtain x where x: "x \<in> set ps"
    and p: "p = (if product_id x = pid then x\<lparr>stock := stock x + d\<rparr> else x)"
    unfolding add_stock_def by auto
  have "product_id x = pid"
    using p assms(2) by (cases "product_id x = pid") simp_all
  with p have "stock p = stock x + d" by simp
  with x show ?thesis by blast
qed

lemma insert_transaction_Inr_shape:
  assumes "insert_transaction sc st new = Inr st1"
  shows "transaction_id new \<notin> set (map transaction_id (transactions st))"
    and "stock_trigger sc \<Longrightarrow>
           \<exists>ps. trg_transaction_after_insert sc new (products st) = Inr ps
              \<and> st1 = st\<lparr>products := ps, transactions := transactions st @ [new]\<rparr>"
    and "\<not> stock_trigger sc \<Longrightarrow> st1 = st\<lparr>transactions := transactions st @ [new]\<rparr>"
proof -
  show c1: "transaction_id new \<notin> set (map transaction_id (transactions st))"
    using assms unfolding insert_transaction_def
    by (cases "transaction_id new \<in> set (map transaction_id (transactions st))") simp_all
  have c2: "\<not> tx_type new \<notin> set transaction_types"
    using assms c1 unfolding insert_transaction_def
    by (cases "tx_type new \<notin> set transaction_types") simp_all
  have c3: "\<not> (tx_product_id new \<notin> set (map product_id (products st))
              \<or> tx_customer_id new \<notin> set (customers st))"
    using assms c1 c2 unfolding insert_transaction_def
    by (cases "tx_product_id new \<notin> set (map product_id (products st))
              \<or> tx_customer_id new \<notin> set (customers st)") simp_all
  have rest: "(if stock_trigger sc
      then (case trg_transaction_after_insert sc new (products st) of
              Inl e \<Rightarrow> Inl e
            | Inr ps \<Rightarrow> Inr (st\<lparr>products := ps, transactions := transactions st @ [new]\<rparr>))
      else Inr (st\<lparr>transactions := transactions st @ [new]\<rparr>)) = Inr st1"
    using assms c1 c2 c3 unfolding insert_transaction_def by simp
  show "\<exists>ps. trg_transaction_after_insert sc new (products st) = Inr ps
              \<and> st1 = st\<lparr>products := ps, transactions := transactions st @ [new]\<rparr>"
    if "stock_trigger sc"
    using rest that
    by (cases "trg_transaction_after_insert sc new (products st)") auto
  show "st1 = st\<lparr>transactions := transactions st @ [new]\<rparr>" if "\<not> stock_trigger sc"
    using rest that by simp
qed

text \<open>
  The stock change of the trigger for a row: 0 where the trigger is not installed or the
  type is none of its three.
\<close>

lemma insert_transaction_Inr:
  assumes "insert_transaction sc st new = Inr st1"
  shows "transactions st1 = transactions st @ [new]"
    and "customers st1 = customers st"
    and "emitted st1 = emitted st"
    and "transaction_id new \<notin> set (map transaction_id (transactions st))"
    and "\<exists>d. products st1 = add_stock (tx_product_id new) d (products st)
           \<and> (d = 0 \<and> (stock_trigger sc \<longrightarrow> tx_type new \<noteq> ''sale'' \<and> tx_type new \<noteq> ''purchase'' \<and> tx_type new \<noteq> ''restock'')
               \<or> stock_trigger sc \<and> tx_type new = ''sale'' \<and> d = - tx_quantity new
               \<or> stock_trigger sc \<and> (tx_type new = ''purchase'' \<or> tx_type new = ''restock'')
                    \<and> d = tx_quantity new)"
proof -
  note shape = insert_transaction_Inr_shape [OF assms]
  show "transactions st1 = transactions st @ [new]"
    using shape(2,3) by (cases "stock_trigger sc") auto
  show "customers st1 = customers st"
    using shape(2,3) by (cases "stock_trigger sc") auto
  show "emitted st1 = emitted st"
    using shape(2,3) by (cases "stock_trigger sc") auto
  show "transaction_id new \<notin> set (map transaction_id (transactions st))"
    using shape(1) .
  show "\<exists>d. products st1 = add_stock (tx_product_id new) d (products st)
           \<and> (d = 0 \<and> (stock_trigger sc \<longrightarrow> tx_type new \<noteq> ''sale'' \<and> tx_type new \<noteq> ''purchase'' \<and> tx_type new \<noteq> ''restock'')
               \<or> stock_trigger sc \<and> tx_type new = ''sale'' \<and> d = - tx_quantity new
               \<or> stock_trigger sc \<and> (tx_type new = ''purchase'' \<or> tx_type new = ''restock'')
                    \<and> d = tx_quantity new)"
  proof (cases "stock_trigger sc")
    case False
    with shape(3) have "products st1 = products st" by simp
    with False show ?thesis by (intro exI [of _ 0]) (simp add: add_stock_zero)
  next
    case True
    with shape(2) obtain ps where
      t: "trg_transaction_after_insert sc new (products st) = Inr ps" and p: "products st1 = ps"
      by auto
    consider (sale) "tx_type new = ''sale''"
      | (add) "tx_type new = ''purchase'' \<or> tx_type new = ''restock''"
      | (other) "tx_type new \<noteq> ''sale''" "tx_type new \<noteq> ''purchase''" "tx_type new \<noteq> ''restock''"
      by blast
    then show ?thesis
    proof cases
      case sale
      with t p have "products st1 = add_stock (tx_product_id new) (- tx_quantity new) (products st)"
        by (auto simp: trg_transaction_after_insert_def update_add_stock_def split: if_splits)
      with True sale show ?thesis by blast
    next
      case add
      with t p have "products st1 = add_stock (tx_product_id new) (tx_quantity new) (products st)"
        by (auto simp: trg_transaction_after_insert_def update_add_stock_def split: if_splits)
      with True add show ?thesis by blast
    next
      case other
      with t p have "products st1 = products st"
        by (auto simp: trg_transaction_after_insert_def)
      with other show ?thesis by (intro exI [of _ 0]) (simp add: add_stock_zero)
    qed
  qed
qed


section \<open>Stock never negative\<close>

lemma select_product_mem:
  "select_product st pid = p # ps \<Longrightarrow> p \<in> set (products st)"
  by (metis filter_is_subset list.set_intros(1) select_product_def subsetD)

lemma set_stock_nonneg:
  assumes "\<forall>p \<in> set ps. product_id p \<noteq> pid \<longrightarrow> 0 \<le> stock p" and "0 \<le> n"
  shows "\<forall>p \<in> set (set_stock pid n ps). 0 \<le> stock p"
  using assms by (auto simp: set_stock_def)

lemma updateStock_nonneg:
  assumes "updateStock m st a b c = (r, st')" and "stock_nonneg st"
  shows "stock_nonneg st'"
  using assms(1)
proof (cases rule: updateStock_cases)
  case (early e)
  with assms(2) show ?thesis by simp
next
  case (written pid q ty p ps n)
  have "0 \<le> stock p"
    using select_product_mem [OF written(7)] assms(2) by (simp add: stock_nonneg_def)
  with written(5,8) have "0 \<le> n" by auto
  then show ?thesis
    using set_stock_nonneg [of "products st" pid n] assms(2)
    unfolding stock_nonneg_def write_stock_products [OF written(9)] by blast
qed

lemma createTransaction_nonneg:
  assumes "createTransaction m sc st a b c d e = (Inr res, st')" and "stock_nonneg st"
  shows "stock_nonneg st'"
  using assms(1)
proof (cases rule: createTransaction_cases)
  case (early err)
  then show ?thesis by simp
next
  case (inserted tid pid q ty cid p ps st1 r2 st2)
  let ?row = "\<lparr>transaction_id = tid, tx_product_id = pid, tx_quantity = q,
          tx_type = ty, tx_customer_id = cid, unit_price = price p,
          total_amount = price p * q\<rparr>"
  from inserted(11) obtain res2 where r2: "r2 = Inr res2" and st': "products st' = products st2"
    by (cases r2) auto
  from insert_transaction_Inr(5) [OF inserted(9)] obtain dlt where
    ps1: "products st1 = add_stock pid dlt (products st)"
    and dlt: "dlt = 0 \<or> ty = ''sale'' \<and> dlt = - q \<or> (ty = ''purchase'' \<or> ty = ''restock'') \<and> dlt = q"
    by auto
  have others: "\<forall>x \<in> set (products st1). product_id x \<noteq> pid \<longrightarrow> 0 \<le> stock x"
    using add_stock_other [of _ pid dlt "products st"] assms(2)
    unfolding ps1 stock_nonneg_def by blast
  from inserted(10) [unfolded r2] show ?thesis
  proof (cases rule: updateStock_cases)
    case (early e)
    then show ?thesis by simp
  next
    case (written pid' q' ty' p1 ps1' n)
    then have eq: "pid' = pid" "q' = q" "ty' = ty" by simp_all
    have mem: "p1 \<in> set (products st1)"
      using select_product_mem [OF written(7)] .
    have id1: "product_id p1 = pid"
      using select_product_id [OF written(7)] eq by simp
    from add_stock_same [OF mem [unfolded ps1] id1] assms(2)
    obtain p0 where "p0 \<in> set (products st)" "stock p1 = stock p0 + dlt" by blast
    with assms(2) have s1: "dlt \<le> stock p1" by (auto simp: stock_nonneg_def)
    have "0 \<le> n"
      using written(8) [unfolded eq] dlt s1 inserted(6) by auto
    then show ?thesis
      using set_stock_nonneg [OF others]
      unfolding stock_nonneg_def st' write_stock_products [OF written(9)] eq by blast
  qed
qed

text \<open>
  C2. From a state in which no stock is negative, no sequence of \<open>updateStock\<close> and
  \<open>createTransaction\<close> calls that all return leaves a negative stock, whether or not the
  trigger is installed and the \<open>CHECK\<close> clauses are enforced. Every prefix of such a
  sequence is one too, so this holds after each of its calls.
\<close>

theorem stock_never_negative:
  assumes "stock_nonneg st" and "all_succeed m sc st calls = Some st'"
  shows "stock_nonneg st'"
  using assms
proof (induction calls arbitrary: st)
  case Nil
  then show ?case by simp
next
  case (Cons c calls)
  from Cons.prems(2) obtain st1 where
    step: "run_call m sc st c = (True, st1)" and rest: "all_succeed m sc st1 calls = Some st'"
    by (auto split: prod.splits bool.splits)
  have "stock_nonneg st1"
  proof (cases c)
    case (UpdateStock a b c')
    with step obtain r where "updateStock m st a b c' = (r, st1)"
      by (auto split: prod.splits sum.splits)
    then show ?thesis using Cons.prems(1) by (rule updateStock_nonneg)
  next
    case (CreateTransaction a b c' d e)
    with step obtain res where "createTransaction m sc st a b c' d e = (Inr res, st1)"
      by (auto split: prod.splits sum.splits)
    then show ?thesis using Cons.prems(1) by (rule createTransaction_nonneg)
  qed
  then show ?case using rest by (rule Cons.IH)
qed

theorem stock_never_negative_witness:
  "stock_nonneg (store_with_stock 5)
   \<and> (\<exists>st'. all_succeed new_manager plain_tables (store_with_stock 5)
               [CreateTransaction (JStr ''T1'') (JStr ''P1'') (JNum 3) (JStr ''sale'') (JStr ''C1''),
                UpdateStock (JStr ''P1'') (JNum 2) (JStr ''sale'')] = Some st'
            \<and> stock_of st' ''P1'' = Some 0 \<and> stock_nonneg st')
   \<and> (\<exists>st'. all_succeed new_manager (database_sql False) (store_with_stock 5)
               [CreateTransaction (JStr ''T1'') (JStr ''P1'') (JNum 2) (JStr ''sale'') (JStr ''C1''),
                UpdateStock (JStr ''P1'') (JNum 1) (JStr ''sale'')] = Some st'
            \<and> stock_of st' ''P1'' = Some 0 \<and> stock_nonneg st')"
proof -
  have init: "stock_nonneg (store_with_stock 5)"
    by (simp add: stock_nonneg_def store_with_stock_def)
  have run1: "all_succeed new_manager plain_tables (store_with_stock 5)
               [CreateTransaction (JStr ''T1'') (JStr ''P1'') (JNum 3) (JStr ''sale'') (JStr ''C1''),
                UpdateStock (JStr ''P1'') (JNum 2) (JStr ''sale'')]
     = Some (snd (updateStock new_manager
          (snd (createTransaction new_manager plain_tables (store_with_stock 5)
             (JStr ''T1'') (JStr ''P1'') (JNum 3) (JStr ''sale'') (JStr ''C1'')))
          (JStr ''P1'') (JNum 2) (JStr ''sale'')))"
    by (simp add: createTransaction_valid updateStock_valid write_stock_def insert_transaction_def
        store_with_stock_def select_product_def set_stock_def new_manager_def plain_tables_def
        transaction_types_def handleLowStockNotification_def logTransaction_def)
  have run2: "all_succeed new_manager (database_sql False) (store_with_stock 5)
               [CreateTransaction (JStr ''T1'') (JStr ''P1'') (JNum 2) (JStr ''sale'') (JStr ''C1''),
                UpdateStock (JStr ''P1'') (JNum 1) (JStr ''sale'')]
     = Some (snd (updateStock new_manager
          (snd (createTransaction new_manager (database_sql False) (store_with_stock 5)
             (JStr ''T1'') (JStr ''P1'') (JNum 2) (JStr ''sale'') (JStr ''C1'')))
          (JStr ''P1'') (JNum 1) (JStr ''sale'')))"
    by (simp add: createTransaction_valid updateStock_valid write_stock_def insert_transaction_def
        trg_transaction_after_insert_def update_add_stock_def add_stock_def
        store_with_stock_def select_product_def set_stock_def new_manager_def database_sql_def
        transaction_types_def handleLowStockNotification_def logTransaction_def)
  have s1: "stock_of (snd (updateStock new_manager
          (snd (createTransaction new_manager plain_tables (store_with_stock 5)
             (JStr ''T1'') (JStr ''P1'') (JNum 3) (JStr ''sale'') (JStr ''C1'')))
          (JStr ''P1'') (JNum 2) (JStr ''sale''))) ''P1'' = Some 0"
    by (simp add: createTransaction_valid updateStock_valid write_stock_def insert_transaction_def
        store_with_stock_def select_product_def set_stock_def new_manager_def plain_tables_def
        transaction_types_def handleLowStockNotification_def logTransaction_def stock_of_def)
  have s2: "stock_of (snd (updateStock new_manager
          (snd (createTransaction new_manager (database_sql False) (store_with_stock 5)
             (JStr ''T1'') (JStr ''P1'') (JNum 2) (JStr ''sale'') (JStr ''C1'')))
          (JStr ''P1'') (JNum 1) (JStr ''sale''))) ''P1'' = Some 0"
    by (simp add: createTransaction_valid updateStock_valid write_stock_def insert_transaction_def
        trg_transaction_after_insert_def update_add_stock_def add_stock_def
        store_with_stock_def select_product_def set_stock_def new_manager_def database_sql_def
        transaction_types_def handleLowStockNotification_def logTransaction_def stock_of_def)
  from stock_never_negative [OF init run1] stock_never_negative [OF init run2]
  show ?thesis using init run1 run2 s1 s2 by simp
qed

section \<open>Failures of \<open>createTransaction\<close>\<close>




lemma write_stock_trace:
  assumes "write_stock m st pid p n = (r, st')"
  shows "(emitted st' = emitted st \<and> (\<exists>res. r = Inr res))
       \<or> (emitted st' = emitted st @ [LowStock (p\<lparr>stock := n\<rparr>)]
           \<and> r = (case call_listeners (lowStock_listeners m) (p\<lparr>stock := n\<rparr>) of
                    Some thrown \<Rightarrow> Inl (ListenerError thrown)
                  | None \<Rightarrow> Inr \<lparr>oldStock = stock p, newStock = n\<rparr>))"
  using write_stock_emitted [OF assms] write_stock_result [OF assms]
  by (cases "n \<le> lowStockThreshold m") simp_all




section \<open>Exceptions of listeners\<close>

lemma updateStock_trace:
  assumes "updateStock m st a b c = (r, st')"
  shows "transactions st' = transactions st
       \<and> (emitted st' = emitted st
          \<or> (\<exists>p. emitted st' = emitted st @ [LowStock p]
                \<and> stock_of st' (product_id p) = Some (stock p)
                \<and> (\<forall>x. call_listeners (lowStock_listeners m) p = Some x \<longrightarrow>
                       r = Inl (ListenerError x))))"
  using assms
proof (cases rule: updateStock_cases)
  case (early e)
  then show ?thesis by simp
next
  case (written pid q ty p ps n)
  have id: "product_id p = pid" using written(7) by (rule select_product_id)
  have so: "stock_of st pid = Some (stock p)" using written(7) by (simp add: stock_of_def)
  have after: "stock_of st' pid = Some n"
    using stock_of_set_stock [OF so write_stock_products [OF written(9)]] .
  have tx: "transactions st' = transactions st"
    using write_stock_tables [OF written(9)] by simp
  from write_stock_trace [OF written(9)] show ?thesis
  proof
    assume "emitted st' = emitted st \<and> (\<exists>res. r = Inr res)"
    with tx show ?thesis by simp
  next
    assume t: "emitted st' = emitted st @ [LowStock (p\<lparr>stock := n\<rparr>)]
         \<and> r = (case call_listeners (lowStock_listeners m) (p\<lparr>stock := n\<rparr>) of
                  Some thrown \<Rightarrow> Inl (ListenerError thrown)
                | None \<Rightarrow> Inr \<lparr>oldStock = stock p, newStock = n\<rparr>)"
    have "\<exists>p'. emitted st' = emitted st @ [LowStock p']
              \<and> stock_of st' (product_id p') = Some (stock p')
              \<and> (\<forall>x. call_listeners (lowStock_listeners m) p' = Some x \<longrightarrow>
                       r = Inl (ListenerError x))"
      using t id after
      by (intro exI [of _ "p\<lparr>stock := n\<rparr>"]) auto
    with tx show ?thesis by blast
  qed
qed

text \<open>
  C7, as amended. Nothing isolates a listener: an exception it throws leaves \<open>emit\<close> and
  becomes the failure of the operation that emitted the event. If \<open>updateStock\<close> has
  emitted a \<open>lowStock\<close> event on which a listener throws, \<open>updateStock\<close> throws that
  exception, and the stock it wrote stays written. If \<open>createTransaction\<close> has emitted a
  \<open>lowStock\<close> or a \<open>transactionComplete\<close> event on which a listener throws, it throws
  that exception, and the transaction row it inserted stays persisted.
\<close>

theorem listener_exception_propagates:
  "(updateStock m st productId quantity transactionType = (r, st')
      \<and> emitted st' = emitted st @ evs \<and> LowStock p \<in> set evs
      \<and> call_listeners (lowStock_listeners m) p = Some x
    \<longrightarrow> r = Inl (ListenerError x) \<and> stock_of st' (product_id p) = Some (stock p))
   \<and> (createTransaction m sc st transactionId productId quantity type customerId = (r', st'')
      \<and> emitted st'' = emitted st @ evs'
      \<and> (LowStock p \<in> set evs' \<and> call_listeners (lowStock_listeners m) p = Some x
          \<or> TransactionComplete info \<in> set evs'
            \<and> call_listeners (transactionComplete_listeners m) info = Some x)
    \<longrightarrow> r' = Inl (ListenerError x)
        \<and> (\<exists>row. transactions st'' = transactions st @ [row]
                 \<and> JStr (transaction_id row) = transactionId))"
proof (intro conjI impI)
  assume a: "updateStock m st productId quantity transactionType = (r, st')
      \<and> emitted st' = emitted st @ evs \<and> LowStock p \<in> set evs
      \<and> call_listeners (lowStock_listeners m) p = Some x"
  from updateStock_trace [of m st productId quantity transactionType r st'] a
  show "r = Inl (ListenerError x)" by auto
  from updateStock_trace [of m st productId quantity transactionType r st'] a
  show "stock_of st' (product_id p) = Some (stock p)" by auto
next
  assume b: "createTransaction m sc st transactionId productId quantity type customerId = (r', st'')
      \<and> emitted st'' = emitted st @ evs'
      \<and> (LowStock p \<in> set evs' \<and> call_listeners (lowStock_listeners m) p = Some x
          \<or> TransactionComplete info \<in> set evs'
            \<and> call_listeners (transactionComplete_listeners m) info = Some x)"
  then have ct: "createTransaction m sc st transactionId productId quantity type customerId = (r', st'')"
    by simp
  from ct have "r' = Inl (ListenerError x)
        \<and> (\<exists>row. transactions st'' = transactions st @ [row]
                 \<and> JStr (transaction_id row) = transactionId)"
  proof (cases rule: createTransaction_cases)
    case (early err)
    with b show ?thesis by auto
  next
    case (inserted tid pid q ty cid p0 ps st1 r2 st2)
    let ?info = "\<lparr>ev_transactionId = tid, ev_productId = pid,
                       ev_quantity = q, ev_type = ty, ev_customerId = cid,
                       ev_totalAmount = price p0 * q\<rparr>"
    note ins = insert_transaction_Inr [OF inserted(9)]
    note tr = updateStock_trace [OF inserted(10)]
    have row: "\<exists>row. transactions st'' = transactions st @ [row]
                 \<and> JStr (transaction_id row) = transactionId"
      using inserted(11) tr ins(1) inserted(1) by (cases r2) auto
    have "r' = Inl (ListenerError x)"
    proof (cases r2)
      case (Inl e)
      with inserted(11) have eq: "r' = Inl e" "st'' = st2" by auto
      with b ins(3) tr Inl show ?thesis by auto
    next
      case (Inr res)
      with inserted(11) have st'': "emitted st'' = emitted st2 @ [TransactionComplete ?info]"
        and r': "r' = (case call_listeners (transactionComplete_listeners m) ?info of
                    Some thrown \<Rightarrow> Inl (ListenerError thrown)
                  | None \<Rightarrow> Inr \<lparr>totalAmount = price p0 * q\<rparr>)"
        by auto
      from tr Inr have quiet_low: "\<And>p'. LowStock p' \<in> set evs' \<Longrightarrow>
          call_listeners (lowStock_listeners m) p' \<noteq> Some x"
        using b st'' ins(3) by auto
      from tr have only: "\<And>i. TransactionComplete i \<in> set evs' \<Longrightarrow> i = ?info"
        using b st'' ins(3) by auto
      from b quiet_low only r' show ?thesis by auto
    qed
    with row show ?thesis by simp
  qed
  then show "r' = Inl (ListenerError x)"
    and "\<exists>row. transactions st'' = transactions st @ [row]
                 \<and> JStr (transaction_id row) = transactionId"
    by simp_all
qed

theorem listener_exception_propagates_witness:
  "updateStock manager_with_failing_lowStock (store_with_stock 3)
      (JStr ''P1'') (JNum 2) (JStr ''restock'')
     = (Inl (ListenerError ''observer failed''),
        (store_with_stock 5)\<lparr>emitted :=
           [LowStock \<lparr>product_id = ''P1'', name = ''Widget'', price = 100, stock = 5,
                      category = ''X''\<rparr>]\<rparr>)
   \<and> createTransaction manager_with_failing_transactionComplete plain_tables (store_with_stock 50)
      (JStr ''T1'') (JStr ''P1'') (JNum 3) (JStr ''sale'') (JStr ''C1'')
     = (Inl (ListenerError ''observer failed''),
        (store_with_stock 47)\<lparr>
           transactions :=
             [\<lparr>transaction_id = ''T1'', tx_product_id = ''P1'', tx_quantity = 3,
               tx_type = ''sale'', tx_customer_id = ''C1'', unit_price = 100,
               total_amount = 300\<rparr>],
           emitted :=
             [TransactionComplete
                \<lparr>ev_transactionId = ''T1'', ev_productId = ''P1'', ev_quantity = 3,
                 ev_type = ''sale'', ev_customerId = ''C1'', ev_totalAmount = 300\<rparr>]\<rparr>)"
proof -
  have a: "updateStock manager_with_failing_lowStock (store_with_stock 3)
      (JStr ''P1'') (JNum 2) (JStr ''restock'')
     = (Inl (ListenerError ''observer failed''),
        (store_with_stock 5)\<lparr>emitted :=
           [LowStock \<lparr>product_id = ''P1'', name = ''Widget'', price = 100, stock = 5,
                      category = ''X''\<rparr>]\<rparr>)"
    by (simp add: updateStock_valid write_stock_def store_with_stock_def select_product_def
        set_stock_def manager_with_failing_lowStock_def new_manager_def
        handleLowStockNotification_def failing_listener_def)
  have b: "createTransaction manager_with_failing_transactionComplete plain_tables (store_with_stock 50)
      (JStr ''T1'') (JStr ''P1'') (JNum 3) (JStr ''sale'') (JStr ''C1'')
     = (Inl (ListenerError ''observer failed''),
        (store_with_stock 47)\<lparr>
           transactions :=
             [\<lparr>transaction_id = ''T1'', tx_product_id = ''P1'', tx_quantity = 3,
               tx_type = ''sale'', tx_customer_id = ''C1'', unit_price = 100,
               total_amount = 300\<rparr>],
           emitted :=
             [TransactionComplete
                \<lparr>ev_transactionId = ''T1'', ev_productId = ''P1'', ev_quantity = 3,
                 ev_type = ''sale'', ev_customerId = ''C1'', ev_totalAmount = 300\<rparr>]\<rparr>)"
    by (simp add: createTransaction_valid updateStock_valid write_stock_def insert_transaction_def
        store_with_stock_def select_product_def set_stock_def plain_tables_def
        transaction_types_def manager_with_failing_transactionComplete_def new_manager_def
        logTransaction_def failing_listener_def)
  have la: "call_listeners (lowStock_listeners manager_with_failing_lowStock)
      \<lparr>product_id = ''P1'', name = ''Widget'', price = 100, stock = 5, category = ''X''\<rparr>
     = Some ''observer failed''"
    by (simp add: manager_with_failing_lowStock_def new_manager_def
        handleLowStockNotification_def failing_listener_def)
  have lb: "call_listeners
      (transactionComplete_listeners manager_with_failing_transactionComplete)
      \<lparr>ev_transactionId = ''T1'', ev_productId = ''P1'', ev_quantity = 3,
       ev_type = ''sale'', ev_customerId = ''C1'', ev_totalAmount = 300\<rparr>
     = Some ''observer failed''"
    by (simp add: manager_with_failing_transactionComplete_def new_manager_def
        logTransaction_def failing_listener_def)
  from listener_exception_propagates
    [where m = manager_with_failing_lowStock and st = "store_with_stock 3"
      and productId = "JStr ''P1''" and quantity = "JNum 2"
      and transactionType = "JStr ''restock''"
      and r = "Inl (ListenerError ''observer failed'')"
      and st' = "(store_with_stock 5)\<lparr>emitted :=
           [LowStock \<lparr>product_id = ''P1'', name = ''Widget'', price = 100, stock = 5,
                      category = ''X''\<rparr>]\<rparr>"
      and evs = "[LowStock \<lparr>product_id = ''P1'', name = ''Widget'', price = 100, stock = 5,
                      category = ''X''\<rparr>]"
      and p = "\<lparr>product_id = ''P1'', name = ''Widget'', price = 100, stock = 5, category = ''X''\<rparr>"
      and x = "''observer failed''"]
    listener_exception_propagates
    [where m = manager_with_failing_transactionComplete and st = "store_with_stock 50"
      and sc = plain_tables and transactionId = "JStr ''T1''"
      and productId = "JStr ''P1''" and quantity = "JNum 3"
      and type = "JStr ''sale''" and customerId = "JStr ''C1''"
      and r' = "Inl (ListenerError ''observer failed'')"
      and st'' = "(store_with_stock 47)\<lparr>
           transactions :=
             [\<lparr>transaction_id = ''T1'', tx_product_id = ''P1'', tx_quantity = 3,
               tx_type = ''sale'', tx_customer_id = ''C1'', unit_price = 100,
               total_amount = 300\<rparr>],
           emitted :=
             [TransactionComplete
                \<lparr>ev_transactionId = ''T1'', ev_productId = ''P1'', ev_quantity = 3,
                 ev_type = ''sale'', ev_customerId = ''C1'', ev_totalAmount = 300\<rparr>]\<rparr>"
      and evs' = "[TransactionComplete
                \<lparr>ev_transactionId = ''T1'', ev_productId = ''P1'', ev_quantity = 3,
                 ev_type = ''sale'', ev_customerId = ''C1'', ev_totalAmount = 300\<rparr>]"
      and info = "\<lparr>ev_transactionId = ''T1'', ev_productId = ''P1'', ev_quantity = 3,
                 ev_type = ''sale'', ev_customerId = ''C1'', ev_totalAmount = 300\<rparr>"
      and x = "''observer failed''"]
  show ?thesis using a b la lb by simp
qed

text \<open>
  C7 as stated fails: with a \<open>lowStock\<close> listener that throws, a sale from 12 to 8 is
  written and \<open>updateStock\<close> throws the listener's exception instead of returning; with
  a \<open>transactionComplete\<close> listener that throws, \<open>createTransaction\<close> does the same
  after both of its writes.
\<close>

theorem listener_exception_not_isolated:
  "updateStock manager_with_failing_lowStock (store_with_stock 12)
      (JStr ''P1'') (JNum 4) (JStr ''sale'')
     = (Inl (ListenerError ''observer failed''),
        (store_with_stock 8)\<lparr>emitted :=
           [LowStock \<lparr>product_id = ''P1'', name = ''Widget'', price = 100, stock = 8,
                      category = ''X''\<rparr>]\<rparr>)
   \<and> fst (createTransaction manager_with_failing_transactionComplete plain_tables
            (store_with_stock 20)
            (JStr ''T1'') (JStr ''P1'') (JNum 3) (JStr ''sale'') (JStr ''C1''))
     = Inl (ListenerError ''observer failed'')
   \<and> stock_of (snd (createTransaction manager_with_failing_transactionComplete plain_tables
            (store_with_stock 20)
            (JStr ''T1'') (JStr ''P1'') (JNum 3) (JStr ''sale'') (JStr ''C1''))) ''P1''
     = Some 17"
  by (simp add: createTransaction_valid updateStock_valid write_stock_def insert_transaction_def
      store_with_stock_def select_product_def set_stock_def plain_tables_def stock_of_def
      transaction_types_def manager_with_failing_transactionComplete_def
      manager_with_failing_lowStock_def new_manager_def
      logTransaction_def handleLowStockNotification_def failing_listener_def)

section \<open>Where the code departs from its own rules\<close>

text \<open>
  C5. A second \<open>createTransaction\<close> with a \<open>transactionId\<close> that exists fails and
  changes nothing, but with the driver's own \<open>ER_DUP_ENTRY\<close> error: the \<open>catch\<close> block
  of \<open>createTransaction\<close> rethrows it as it is, where the one of \<open>addProduct\<close> turns
  the same error into \<open>DUPLICATE_PRODUCT\<close>. server.js answers 500 for the first and 400
  for the second.
\<close>

theorem duplicate_transaction_untranslated:
  "createTransaction new_manager sc store_with_T1
      (JStr ''T1'') (JStr ''P1'') (JNum 1) (JStr ''sale'') (JStr ''C1'')
     = (Inl (DbError ER_DUP_ENTRY), store_with_T1)
   \<and> \<not> isInventoryNotificationError (DbError ER_DUP_ENTRY)
   \<and> statusCode (DbError ER_DUP_ENTRY) = 500
   \<and> addProduct sc store_with_T1
        (JStr ''P1'') (JStr ''Widget'') (JNum 100) (JNum 5) (JStr ''X'')
     = (Inl (DUPLICATE_PRODUCT ''P1''), store_with_T1)
   \<and> statusCode (DUPLICATE_PRODUCT ''P1'') = 400"
proof -
  have v: "validateInput
      [(''productId'', JStr ''P1''), (''name'', JStr ''Widget''), (''price'', JNum 100),
       (''stock'', JNum 5), (''category'', JStr ''X'')] addProduct_rules = None"
    by (simp add: addProduct_rules_def string_rule_def number_rule_def field_of_def below_min_def)
  show ?thesis
    by (simp add: createTransaction_valid insert_transaction_def addProduct_def v
        insert_product_def store_with_T1_def store_with_stock_def select_product_def
        statusCode_def)
qed

text \<open>
  A duplicate \<open>transactionId\<close> in general: for arguments that pass validation and an
  existing product, the call fails with \<open>ER_DUP_ENTRY\<close> and the state is unchanged.
\<close>

theorem duplicate_transaction_unchanged:
  assumes "tid \<in> set (map transaction_id (transactions st))"
    and "select_product st pid \<noteq> []"
    and "tid \<noteq> []" and "pid \<noteq> []" and "1 \<le> q" and "ty \<noteq> []" and "cid \<noteq> []"
  shows "createTransaction m sc st (JStr tid) (JStr pid) (JNum q) (JStr ty) (JStr cid)
           = (Inl (DbError ER_DUP_ENTRY), st)"
  using assms
  by (cases "select_product st pid")
     (simp_all add: createTransaction_valid insert_transaction_def)

theorem duplicate_transaction_unchanged_witness:
  "''T1'' \<in> set (map transaction_id (transactions store_with_T1))
   \<and> createTransaction new_manager plain_tables store_with_T1
        (JStr ''T1'') (JStr ''P1'') (JNum 2) (JStr ''purchase'') (JStr ''C1'')
       = (Inl (DbError ER_DUP_ENTRY), store_with_T1)"
  using duplicate_transaction_unchanged
    [of "''T1''" store_with_T1 "''P1''" 2 "''purchase''" "''C1''" new_manager plain_tables]
  by (simp add: store_with_T1_def store_with_stock_def select_product_def)

text \<open>
  C8. The rules of \<open>addProduct\<close> give \<open>price\<close> and \<open>stock\<close> the minimum 0, but
  \<open>validateInput\<close> tests \<open>rule.required && !data[field]\<close> and \<open>rule.min && ...\<close>, and
  0 is falsy in both: a price or a stock of 0 is refused as missing, and the minimum 0 is
  never compared, so a negative price or stock passes validation. The row is then
  inserted, or refused by the database with an error that is not a validation error
  where the \<open>CHECK\<close> clauses are enforced.
\<close>

theorem addProduct_zero_and_negative:
  "addProduct sc (store_with_stock 5)
      (JStr ''P2'') (JStr ''Gadget'') (JNum 0) (JNum 7) (JStr ''X'')
     = (Inl (VALIDATION_ERROR ''price'' IsRequired), store_with_stock 5)
   \<and> addProduct sc (store_with_stock 5)
      (JStr ''P2'') (JStr ''Gadget'') (JNum 100) (JNum 0) (JStr ''X'')
     = (Inl (VALIDATION_ERROR ''stock'' IsRequired), store_with_stock 5)
   \<and> validateInput
        [(''productId'', JStr ''P2''), (''name'', JStr ''Gadget''), (''price'', JNum (- 5)),
         (''stock'', JNum (- 3)), (''category'', JStr ''X'')] addProduct_rules = None
   \<and> addProduct plain_tables (store_with_stock 5)
      (JStr ''P2'') (JStr ''Gadget'') (JNum (- 5)) (JNum (- 3)) (JStr ''X'')
     = (Inr (),
        (store_with_stock 5)\<lparr>products := products (store_with_stock 5) @
           [\<lparr>product_id = ''P2'', name = ''Gadget'', price = - 5, stock = - 3,
             category = ''X''\<rparr>]\<rparr>)
   \<and> addProduct (database_sql True) (store_with_stock 5)
      (JStr ''P2'') (JStr ''Gadget'') (JNum (- 5)) (JNum (- 3)) (JStr ''X'')
     = (Inl (DbError ER_CHECK_CONSTRAINT_VIOLATED), store_with_stock 5)"
proof -
  have zero_price: "validateInput
        [(''productId'', JStr ''P2''), (''name'', JStr ''Gadget''), (''price'', JNum 0),
         (''stock'', JNum 7), (''category'', JStr ''X'')] addProduct_rules
      = Some (VALIDATION_ERROR ''price'' IsRequired)"
    by (simp add: addProduct_rules_def string_rule_def number_rule_def field_of_def below_min_def)
  have zero_stock: "validateInput
        [(''productId'', JStr ''P2''), (''name'', JStr ''Gadget''), (''price'', JNum 100),
         (''stock'', JNum 0), (''category'', JStr ''X'')] addProduct_rules
      = Some (VALIDATION_ERROR ''stock'' IsRequired)"
    by (simp add: addProduct_rules_def string_rule_def number_rule_def field_of_def below_min_def)
  have negative: "validateInput
        [(''productId'', JStr ''P2''), (''name'', JStr ''Gadget''), (''price'', JNum (- 5)),
         (''stock'', JNum (- 3)), (''category'', JStr ''X'')] addProduct_rules = None"
    by (simp add: addProduct_rules_def string_rule_def number_rule_def field_of_def below_min_def)
  show ?thesis
    by (simp add: addProduct_def zero_price zero_stock negative insert_product_def
        store_with_stock_def plain_tables_def database_sql_def)
qed

text \<open>
  The part of the rule on quantities that holds: \<open>updateStock\<close> and
  \<open>createTransaction\<close> refuse a quantity below 1 with a validation error, before
  reading or writing anything.
\<close>

theorem quantity_below_one_rejected:
  assumes "q < 1" and "pid \<noteq> []" and "tid \<noteq> []"
  shows "(\<exists>v. updateStock m st (JStr pid) (JNum q) transactionType
                = (Inl (VALIDATION_ERROR ''quantity'' v), st))
       \<and> (\<exists>v. createTransaction m sc st (JStr tid) (JStr pid) (JNum q) type customerId
                = (Inl (VALIDATION_ERROR ''quantity'' v), st))"
proof -
  have u: "validateInput
      [(''productId'', JStr pid), (''quantity'', JNum q), (''transactionType'', transactionType)]
      updateStock_rules
     = Some (VALIDATION_ERROR ''quantity'' (if q = 0 then IsRequired else MustBeAtLeast 1))"
    using assms
    by (simp add: updateStock_rules_def string_rule_def number_rule_def field_of_def below_min_def)
  have c: "validateInput
      [(''transactionId'', JStr tid), (''productId'', JStr pid),
       (''quantity'', JNum q), (''type'', type), (''customerId'', customerId)]
      createTransaction_rules
     = Some (VALIDATION_ERROR ''quantity'' (if q = 0 then IsRequired else MustBeAtLeast 1))"
    using assms
    by (simp add: createTransaction_rules_def string_rule_def number_rule_def field_of_def
        below_min_def)
  show ?thesis
    by (simp add: updateStock_def createTransaction_def u c)
qed

theorem quantity_below_one_rejected_witness:
  "updateStock new_manager (store_with_stock 5) (JStr ''P1'') (JNum 0) (JStr ''sale'')
     = (Inl (VALIDATION_ERROR ''quantity'' IsRequired), store_with_stock 5)
   \<and> updateStock new_manager (store_with_stock 5) (JStr ''P1'') (JNum (- 2)) (JStr ''sale'')
     = (Inl (VALIDATION_ERROR ''quantity'' (MustBeAtLeast 1)), store_with_stock 5)"
proof -
  have a: "updateStock new_manager (store_with_stock 5) (JStr ''P1'') (JNum 0) (JStr ''sale'')
     = (Inl (VALIDATION_ERROR ''quantity'' IsRequired), store_with_stock 5)"
    by (simp add: updateStock_def updateStock_rules_def string_rule_def number_rule_def
        field_of_def below_min_def)
  have b: "updateStock new_manager (store_with_stock 5) (JStr ''P1'') (JNum (- 2)) (JStr ''sale'')
     = (Inl (VALIDATION_ERROR ''quantity'' (MustBeAtLeast 1)), store_with_stock 5)"
    by (simp add: updateStock_def updateStock_rules_def string_rule_def number_rule_def
        field_of_def below_min_def)
  from quantity_below_one_rejected [of 0 "''P1''" "''T1''" new_manager "store_with_stock 5"]
  show ?thesis using a b by simp
qed

text \<open>
  C9. \<open>createTransaction\<close> computes the total from the stored price, and on tables
  without the trigger the scenario of the specification runs as it says. On the database
  that database.sql sets up, the \<open>INSERT\<close> fires the trigger, which applies the sale to
  the stock, and \<open>updateStock\<close> then applies it again: the sale of 3 from a stock of 5
  is refused for a stock of 2 after the row is written, and a sale of 2 from a stock of
  5 returns with the stock at 1.
\<close>

theorem createTransaction_stock_applied_twice:
  "createTransaction new_manager (database_sql checks) (store_with_stock 5)
      (JStr ''T1'') (JStr ''P1'') (JNum 3) (JStr ''sale'') (JStr ''C1'')
     = (Inl (INSUFFICIENT_STOCK 2 3),
        (store_with_stock 2)\<lparr>transactions :=
           [\<lparr>transaction_id = ''T1'', tx_product_id = ''P1'', tx_quantity = 3,
             tx_type = ''sale'', tx_customer_id = ''C1'', unit_price = 100,
             total_amount = 300\<rparr>]\<rparr>)
   \<and> fst (createTransaction new_manager (database_sql checks) (store_with_stock 5)
      (JStr ''T1'') (JStr ''P1'') (JNum 2) (JStr ''sale'') (JStr ''C1''))
     = Inr \<lparr>totalAmount = 200\<rparr>
   \<and> stock_of (snd (createTransaction new_manager (database_sql checks) (store_with_stock 5)
      (JStr ''T1'') (JStr ''P1'') (JNum 2) (JStr ''sale'') (JStr ''C1''))) ''P1'' = Some 1
   \<and> fst (createTransaction new_manager plain_tables (store_with_stock 5)
      (JStr ''T1'') (JStr ''P1'') (JNum 3) (JStr ''sale'') (JStr ''C1''))
     = Inr \<lparr>totalAmount = 300\<rparr>
   \<and> stock_of (snd (createTransaction new_manager plain_tables (store_with_stock 5)
      (JStr ''T1'') (JStr ''P1'') (JNum 3) (JStr ''sale'') (JStr ''C1''))) ''P1'' = Some 2"
  by (simp add: createTransaction_valid updateStock_valid write_stock_def insert_transaction_def
      trg_transaction_after_insert_def update_add_stock_def add_stock_def
      store_with_stock_def select_product_def set_stock_def plain_tables_def database_sql_def
      stock_of_def transaction_types_def new_manager_def
      logTransaction_def handleLowStockNotification_def)

text \<open>
  The total of a call that returns is the stored price of the product read times the
  quantity, under every database set-up; no argument of the call carries a price.
\<close>

theorem createTransaction_total:
  assumes "createTransaction m sc st transactionId productId quantity type customerId = (Inr res, st')"
  shows "\<exists>pid q p ps. productId = JStr pid \<and> quantity = JNum q
           \<and> select_product st pid = p # ps \<and> totalAmount res = price p * q"
  using assms
proof (cases rule: createTransaction_cases)
  case (early err)
  then show ?thesis by simp
next
  case (inserted tid pid q ty cid p ps st1 r2 st2)
  from inserted(11) have "totalAmount res = price p * q"
    by (cases r2) (auto split: option.splits)
  with inserted(2,3,8) show ?thesis by blast
qed

theorem createTransaction_total_witness:
  "createTransaction new_manager plain_tables (store_with_stock 5)
      (JStr ''T1'') (JStr ''P1'') (JNum 3) (JStr ''sale'') (JStr ''C1'')
     = (Inr \<lparr>totalAmount = 300\<rparr>,
        (store_with_stock 2)\<lparr>
           transactions :=
             [\<lparr>transaction_id = ''T1'', tx_product_id = ''P1'', tx_quantity = 3,
               tx_type = ''sale'', tx_customer_id = ''C1'', unit_price = 100,
               total_amount = 300\<rparr>],
           emitted :=
             [LowStock \<lparr>product_id = ''P1'', name = ''Widget'', price = 100, stock = 2,
                        category = ''X''\<rparr>,
              TransactionComplete
                \<lparr>ev_transactionId = ''T1'', ev_productId = ''P1'', ev_quantity = 3,
                 ev_type = ''sale'', ev_customerId = ''C1'', ev_totalAmount = 300\<rparr>]\<rparr>)"
proof -
  have a: "createTransaction new_manager plain_tables (store_with_stock 5)
      (JStr ''T1'') (JStr ''P1'') (JNum 3) (JStr ''sale'') (JStr ''C1'')
     = (Inr \<lparr>totalAmount = 300\<rparr>,
        (store_with_stock 2)\<lparr>
           transactions :=
             [\<lparr>transaction_id = ''T1'', tx_product_id = ''P1'', tx_quantity = 3,
               tx_type = ''sale'', tx_customer_id = ''C1'', unit_price = 100,
               total_amount = 300\<rparr>],
           emitted :=
             [LowStock \<lparr>product_id = ''P1'', name = ''Widget'', price = 100, stock = 2,
                        category = ''X''\<rparr>,
              TransactionComplete
                \<lparr>ev_transactionId = ''T1'', ev_productId = ''P1'', ev_quantity = 3,
                 ev_type = ''sale'', ev_customerId = ''C1'', ev_totalAmount = 300\<rparr>]\<rparr>)"
    by (simp add: createTransaction_valid updateStock_valid write_stock_def insert_transaction_def
        store_with_stock_def select_product_def set_stock_def plain_tables_def
        transaction_types_def new_manager_def logTransaction_def handleLowStockNotification_def)
  from createTransaction_total [OF a] show ?thesis using a by simp
qed

end
